theory Spec2Isabelle
  imports Complex_Main
begin

section \<open>Values that cross the JSON boundary\<close>

text \<open>
  A JavaScript \<^verbatim>\<open>number\<close> is a double. The dashboard never computes with one: it tests
  it for truthiness, compares two of them with \<^verbatim>\<open>>=\<close>, substitutes a default with
  \<^verbatim>\<open>??\<close> and prints it with \<^verbatim>\<open>toFixed(2)\<close>. Each of these depends only on the exact
  value the double denotes, so a finite double is modelled by that value (a rational;
  \<^verbatim>\<open>-0\<close> and \<^verbatim>\<open>+0\<close> behave alike in all four operations and are both \<open>Fin 0\<close>) and
  the three non-finite doubles are constructors of their own.

  An optional or nullable field (\<^verbatim>\<open>volume?: number\<close>, a key the server left out or sent as
  \<^verbatim>\<open>null\<close>) is an \<open>option\<close>: \<open>None\<close> stands for both \<^verbatim>\<open>undefined\<close> and \<^verbatim>\<open>null\<close>, which
  \<^verbatim>\<open>??\<close>, \<^verbatim>\<open>?.\<close> and \<^verbatim>\<open>||\<close> treat alike. A value that is present has the shape of its
  TypeScript type.
\<close>

datatype number = Fin rat | PosInf | NegInf | NaN

text \<open>\<^verbatim>\<open>a >= b\<close> on doubles: false as soon as one side is \<^verbatim>\<open>NaN\<close>.\<close>

fun js_ge :: "number \<Rightarrow> number \<Rightarrow> bool" where
  "js_ge NaN _ = False"
| "js_ge _ NaN = False"
| "js_ge PosInf _ = True"
| "js_ge _ NegInf = True"
| "js_ge (Fin a) (Fin b) = (b \<le> a)"
| "js_ge (Fin a) PosInf = False"
| "js_ge NegInf _ = False"

text \<open>Truthiness of a number: \<^verbatim>\<open>0\<close>, \<^verbatim>\<open>-0\<close> and \<^verbatim>\<open>NaN\<close> are falsy.\<close>

fun truthy_number :: "number \<Rightarrow> bool" where
  "truthy_number (Fin x) = (x \<noteq> 0)"
| "truthy_number NaN = False"
| "truthy_number PosInf = True"
| "truthy_number NegInf = True"

text \<open>Truthiness of a string: only the empty string is falsy.\<close>

definition truthy_string :: "string \<Rightarrow> bool" where
  "truthy_string s = (s \<noteq> [])"

text \<open>
  Where the code prints a value that may be missing, \<^verbatim>\<open>undefined\<close> and \<^verbatim>\<open>null\<close> differ: a
  template literal prints the one as \<^verbatim>\<open>undefined\<close> and the other as \<^verbatim>\<open>null\<close>. Such a value
  keeps the two apart.
\<close>

datatype js_string = Undefined | Null | Text string

definition template :: "js_string \<Rightarrow> string" where
  "template v = (case v of Undefined \<Rightarrow> ''undefined'' | Null \<Rightarrow> ''null'' | Text s \<Rightarrow> s)"

text \<open>Reading a property of \<^verbatim>\<open>undefined\<close> or \<^verbatim>\<open>null\<close> throws.\<close>

datatype js_error = TypeError

section \<open>The chart component (\<^verbatim>\<open>frontend/components/Chart.tsx\<close>)\<close>

record candle =
  time :: string
  "open" :: number
  high :: number
  low :: number
  close :: number
  volume :: "number option"

text \<open>\<^verbatim>\<open>LineData\<close> and \<^verbatim>\<open>BarData\<close> of lightweight-charts, as far as the dashboard passes them on.\<close>

record lineData =
  l_time :: string
  l_value :: number

record barData =
  b_time :: string
  b_open :: number
  b_high :: number
  b_low :: number
  b_close :: number

record indicatorSeries =
  sma50 :: "lineData list option"
  sma200 :: "lineData list option"
  ema20 :: "lineData list option"

record macdSeries =
  macd :: "lineData list"
  signal :: "lineData list"
  histogram :: "barData list"

text \<open>
  The properties of \<^verbatim>\<open>Chart\<close>. \<^verbatim>\<open>candles\<close> is declared an array, but the page passes its
  state on as it is, which is \<^verbatim>\<open>undefined\<close> (\<open>None\<close>) after a history body without candles.
\<close>

record props =
  p_candles :: "candle list option"
  p_indicators :: "indicatorSeries option"
  p_rsi :: "lineData list option"
  p_macd :: "macdSeries option"

text \<open>The state of the three overlay check boxes, \<^verbatim>\<open>useState({sma50: true, sma200: true, ema20: false})\<close>.\<close>

record showSMA =
  show_sma50 :: bool
  show_sma200 :: bool
  show_ema20 :: bool

text \<open>One point of the volume histogram, the object literal of the \<^verbatim>\<open>candles.map\<close> callback.\<close>

record histogramData =
  h_time :: string
  h_value :: number
  h_color :: string

text \<open>
  What the effect adds to the chart, in the order of the calls: each constructor is one
  \<^verbatim>\<open>add...Series\<close> call together with the data of its \<^verbatim>\<open>setData\<close>. A histogram or line
  series carries its base colour and its \<^verbatim>\<open>priceScaleId\<close> (\<open>None\<close> where the call gives none).
  The effect calls \<^verbatim>\<open>addHistogramSeries\<close> twice: \<open>VolumeHistogramSeries\<close> is the call with
  \<^verbatim>\<open>priceFormat: { type: "volume" }\<close>, fed from the candles; \<open>HistogramSeries\<close> is the one
  for the MACD histogram, fed with the \<^verbatim>\<open>BarData\<close> of the property as they are.
  The library lightweight-charts is not part of the repository: a series is recorded with
  the data the effect hands to it.
\<close>

datatype series =
  CandlestickSeries "candle list"
| VolumeHistogramSeries string string "histogramData list"
| LineSeries string "string option" "lineData list"
| HistogramSeries string string "barData list"

definition volumeBar :: "candle \<Rightarrow> histogramData" where
  "volumeBar c =
     \<lparr>h_time = time c,
      h_value = (case volume c of None \<Rightarrow> Fin 0 | Some v \<Rightarrow> v),
      h_color = (if js_ge (close c) (open c)
                 then ''rgba(110, 231, 183, 0.5)'' else ''rgba(252, 165, 165, 0.5)'')\<rparr>"

text \<open>
  \<^verbatim>\<open>Object.entries(overlayLines).forEach\<close>: one line series per overlay that is switched on
  and present in \<^verbatim>\<open>indicators\<close>, in the key order \<^verbatim>\<open>sma50\<close>, \<^verbatim>\<open>sma200\<close>, \<^verbatim>\<open>ema20\<close>. An array is
  truthy even when empty, so presence is all the test asks.
\<close>

definition overlay :: "bool \<Rightarrow> lineData list option \<Rightarrow> string \<Rightarrow> series list" where
  "overlay shown line lineColor =
     (case line of
        None \<Rightarrow> []
      | Some d \<Rightarrow> if shown then [LineSeries lineColor None d] else [])"

definition overlays :: "showSMA \<Rightarrow> indicatorSeries option \<Rightarrow> series list" where
  "overlays s ind =
     (case ind of
        None \<Rightarrow> []
      | Some i \<Rightarrow>
          overlay (show_sma50 s) (sma50 i) ''#60a5fa''
          @ overlay (show_sma200 s) (sma200 i) ''#c084fc''
          @ overlay (show_ema20 s) (ema20 i) ''#facc15'')"

text \<open>
  The body of the \<^verbatim>\<open>useEffect\<close> of \<^verbatim>\<open>Chart\<close>. Its first statement returns when the container
  \<^verbatim>\<open>div\<close> is not mounted (\<open>container = False\<close>): then no chart exists, which is \<open>None\<close>.
  With \<^verbatim>\<open>candles\<close> undefined the effect throws, at the latest where it calls \<^verbatim>\<open>candles.map\<close>.
\<close>

definition Chart :: "bool \<Rightarrow> showSMA \<Rightarrow> props \<Rightarrow> js_error + series list option" where
  "Chart container s p =
     (if \<not> container then Inr None
      else
        (case p_candles p of
           None \<Rightarrow> Inl TypeError
         | Some cs \<Rightarrow>
             Inr (Some
               ([CandlestickSeries cs,
                 VolumeHistogramSeries ''#4b5563'' '''' (map volumeBar cs)]
                @ overlays s (p_indicators p)
                @ (case p_rsi p of
                     None \<Rightarrow> []
                   | Some r \<Rightarrow> [LineSeries ''#f472b6'' (Some ''rsi'') r])
                @ (case p_macd p of
                     None \<Rightarrow> []
                   | Some m \<Rightarrow>
                       [LineSeries ''#22d3ee'' (Some ''macd'') (macd m),
                        LineSeries ''#f97316'' (Some ''macd'') (signal m),
                        HistogramSeries ''#a78bfa'' ''macd'' (histogram m)])))))"

text \<open>The data of every volume histogram on a chart (the series on the overlay price scale).\<close>

fun volumeSeries :: "series list \<Rightarrow> histogramData list list" where
  "volumeSeries [] = []"
| "volumeSeries (VolumeHistogramSeries c ps d # ss) = d # volumeSeries ss"
| "volumeSeries (_ # ss) = volumeSeries ss"

section \<open>The dashboard page (\<^verbatim>\<open>frontend/app/page.tsx\<close>)\<close>

text \<open>
  The source file holds the page twice: an earlier revision (lines 1-193) and the current
  one (lines 194-431), which adds the indicator series, the \<^verbatim>\<open>errorMsg\<close> state and the
  \<^verbatim>\<open>res.ok\<close> test. The two agree everywhere else, so each function below is written once
  and takes the revision as its first argument; every place where the revisions differ is
  a test of that argument.
\<close>

datatype revision = Rev1 | Rev2

subsection \<open>Text typed by the user\<close>

text \<open>
  The ticker is the only string the page transforms (\<^verbatim>\<open>toUpperCase\<close>), so it is kept as
  its list of Unicode code points. \<^verbatim>\<open>String.prototype.toUpperCase\<close> replaces every code
  point by its upper-case mapping, which may be several code points long, and leaves the
  order alone. On ASCII the mapping shifts \<^verbatim>\<open>a\<close>..\<^verbatim>\<open>z\<close> (97..122) to \<^verbatim>\<open>A\<close>..\<^verbatim>\<open>Z\<close>; beyond ASCII
  it is the table of the Unicode Character Database, which is not part of this
  repository and is the parameter \<open>uni\<close>. All other strings are only stored, compared and
  tested for emptiness, and are \<open>string\<close>s.
\<close>

type_synonym codepoints = "nat list"

definition ascii_lowercase :: "nat \<Rightarrow> bool" where
  "ascii_lowercase c = (97 \<le> c \<and> c \<le> 122)"

definition upper_mapping :: "(nat \<Rightarrow> codepoints) \<Rightarrow> nat \<Rightarrow> codepoints" where
  "upper_mapping uni c =
     (if c < 128 then (if ascii_lowercase c then [c - 32] else [c]) else uni c)"

definition toUpperCase :: "(nat \<Rightarrow> codepoints) \<Rightarrow> codepoints \<Rightarrow> codepoints" where
  "toUpperCase uni s = concat (map (upper_mapping uni) s)"

text \<open>The literal \<^verbatim>\<open>"AAPL"\<close>.\<close>

definition AAPL :: codepoints where
  "AAPL = [65, 65, 80, 76]"

text \<open>The code points of a string of the source text.\<close>

definition codepoints_of :: "string \<Rightarrow> codepoints" where
  "codepoints_of s = map of_char s"

subsection \<open>Types of the page and of the responses it reads\<close>

record report =
  executive_summary :: "string option"
  technical_outlook :: "string option"
  risks :: "string option"
  strategy :: "string option"
  technical_indicators :: "string option"
  confidence :: "string option"

text \<open>
  \<^verbatim>\<open>technical_indicators\<close> has type \<^verbatim>\<open>any\<close> and is only handed to \<^verbatim>\<open>JSON.stringify\<close>; it is
  kept as its JSON text. The object literal \<^verbatim>\<open>{}\<close> is the report with no key.
\<close>

definition empty_report :: report where
  "empty_report =
     \<lparr>executive_summary = None, technical_outlook = None, risks = None, strategy = None,
      technical_indicators = None, confidence = None\<rparr>"

definition empty_indicators :: indicatorSeries where
  "empty_indicators = \<lparr>sma50 = None, sma200 = None, ema20 = None\<rparr>"

record timeframe =
  label :: string
  period :: string
  interval :: string

definition TIMEFRAMES :: "timeframe list" where
  "TIMEFRAMES =
     [\<lparr>label = ''1D'', period = ''5d'', interval = ''30m''\<rparr>,
      \<lparr>label = ''1W'', period = ''1mo'', interval = ''1h''\<rparr>,
      \<lparr>label = ''1M'', period = ''6mo'', interval = ''1d''\<rparr>,
      \<lparr>label = ''1Y'', period = ''1y'', interval = ''1d''\<rparr>]"

record news_item =
  title :: string
  url :: string
  excerpt :: string
  score :: "number option"

datatype status = idle | loading | analyzing

text \<open>
  The bodies of the four responses, with every key the page reads. \<^verbatim>\<open>task_id\<close> ends up in a
  template literal, so it keeps \<^verbatim>\<open>undefined\<close> (the body has no such key) and \<^verbatim>\<open>null\<close> apart;
  any other value is the text the template literal prints for it.
\<close>

record historyJson =
  hj_candles :: "candle list option"
  hj_indicators :: "indicatorSeries option"
  hj_rsi :: "lineData list option"
  hj_macd :: "macdSeries option"

record newsJson =
  nj_news :: "news_item list option"

record analyzeJson =
  task_id :: js_string

record resultJson =
  draft_report :: "report option"

record taskJson =
  task_status :: "string option"
  task_result :: "resultJson option"
  task_error :: "string option"

text \<open>
  How the awaited promises of each handler settle. A rejection stands for a failed
  \<^verbatim>\<open>fetch\<close> as well as for a body that \<^verbatim>\<open>json()\<close> cannot parse. A body that parses is any
  JSON value. Reading a key of it throws when the value is \<^verbatim>\<open>null\<close> and yields \<^verbatim>\<open>undefined\<close>
  for every other value that is not an object, which therefore reads like the object
  without keys. So:
  \<^item> each of the two bodies of a load is \<open>None\<close> when it is \<^verbatim>\<open>null\<close>;
  \<^item> the response to the \<^verbatim>\<open>POST\<close> carries its \<^verbatim>\<open>ok\<close> flag, and its body is \<open>None\<close> when
    \<^verbatim>\<open>json()\<close> rejects or yields \<^verbatim>\<open>null\<close>: the destructuring throws on \<^verbatim>\<open>null\<close>, and both end
    in the same \<^verbatim>\<open>catch\<close> block;
  \<^item> the body of a poll that is \<^verbatim>\<open>null\<close> makes the callback throw at \<^verbatim>\<open>task.status\<close>, before
    it has done anything, exactly as a rejection does: it is \<open>PollRejected\<close> too.
\<close>

datatype load_outcome = LoadRejected | LoadResolved "historyJson option" "newsJson option"

datatype analyze_outcome = AnalyzeRejected | AnalyzeResponse bool "analyzeJson option"

datatype poll_outcome = PollRejected | PollResolved taskJson

text \<open>
  The requests the page sends, by method and by the values spliced into the template
  literal of the URL: the ticker, the period and interval of the selected frame, the text
  of the task id. A poll also records the handle of the interval whose callback sent it;
  the handle is bookkeeping and is not transmitted.
\<close>

datatype request =
  GET_history codepoints string string
| GET_news codepoints
| POST_analyze codepoints
| GET_task nat string

text \<open>
  The base of every URL: the literal \<^verbatim>\<open>http://localhost:8000\<close> in the earlier revision; in
  the current one \<^verbatim>\<open>process.env.NEXT_PUBLIC_API_BASE || "http://localhost:8000"\<close>, where
  the environment variable is the parameter \<open>env\<close>.
\<close>

definition API_BASE :: "revision \<Rightarrow> string option \<Rightarrow> string" where
  "API_BASE rv env =
     (if rv = Rev2
      then (case env of
              None \<Rightarrow> ''http://localhost:8000''
            | Some b \<Rightarrow> if truthy_string b then b else ''http://localhost:8000'')
      else ''http://localhost:8000'')"

text \<open>
  The URL a request is sent to: the template literals of \<^verbatim>\<open>loadMarketData\<close>,
  \<^verbatim>\<open>handleAnalyze\<close> and \<^verbatim>\<open>pollTask\<close>. Every value is spliced in as it is; nothing is
  percent-encoded.
\<close>

fun url_of :: "string \<Rightarrow> request \<Rightarrow> codepoints" where
  "url_of base (GET_history t p i) =
     codepoints_of (base @ ''/api/market/history?ticker='') @ t
     @ codepoints_of (''&period='' @ p @ ''&interval='' @ i)"
| "url_of base (GET_news t) = codepoints_of (base @ ''/api/market/news?ticker='') @ t"
| "url_of base (POST_analyze t) = codepoints_of (base @ ''/api/analyze?ticker='') @ t"
| "url_of base (GET_task h tid) = codepoints_of (base @ ''/api/analyze/'' @ tid)"

text \<open>An interval created by \<^verbatim>\<open>setInterval(callback, 1500)\<close> inside \<^verbatim>\<open>pollTask(taskId)\<close>.\<close>

record poller =
  handle :: nat
  taskId :: js_string
  delay :: nat

datatype console_entry = LoggedCause "string option" | LoggedException

text \<open>
  The React state of \<^verbatim>\<open>Dashboard\<close> (one field per \<^verbatim>\<open>useState\<close>; the earlier revision has
  no \<^verbatim>\<open>indicators\<close>, \<^verbatim>\<open>rsiSeries\<close>, \<^verbatim>\<open>macdSeries\<close> and \<^verbatim>\<open>errorMsg\<close> and never writes them)
  and, below it, what the browser holds for the page: the running intervals, the
  promises that have not settled yet, the requests sent so far and the console.
  \<^verbatim>\<open>candles\<close> is written from the response without a default and so may be \<^verbatim>\<open>undefined\<close>
  (\<open>None\<close>; so is every value that is not an array).

  Once \<^verbatim>\<open>candles\<close> is not an array the effect of \<^verbatim>\<open>Chart\<close> throws in the commit that
  follows, and React, finding no error boundary in these sources, takes the page off the
  screen for good: \<open>unmounted\<close> records that. What the browser holds beside the component
  (intervals, promises, requests, console) lives on.
\<close>

record dashboard =
  ticker :: codepoints
  selectedFrame :: timeframe
  candles :: "candle list option"
  indicators :: indicatorSeries
  rsiSeries :: "lineData list"
  macdSeries :: "macdSeries option"
  news :: "news_item list"
  report :: report
  status :: status
  errorMsg :: string

record world = dashboard +
  unmounted :: bool
  intervals :: "poller list"
  nextHandle :: nat
  pendingLoads :: nat
  pendingAnalyze :: nat
  pendingPolls :: "nat list"
  sent :: "request list"
  console :: "console_entry list"

text \<open>The first render: the initial values of the \<^verbatim>\<open>useState\<close> calls, nothing running.\<close>

definition first_render :: world where
  "first_render =
     \<lparr>ticker = AAPL, selectedFrame = TIMEFRAMES ! 3, candles = Some [],
      indicators = empty_indicators, rsiSeries = [], macdSeries = None, news = [],
      report = empty_report, status = idle, errorMsg = '''',
      unmounted = False,
      intervals = [], nextHandle = 0, pendingLoads = 0, pendingAnalyze = 0,
      pendingPolls = [], sent = [], console = []\<rparr>"

subsection \<open>The handlers\<close>

text \<open>
  Every \<^verbatim>\<open>async\<close> function is cut at its awaits: the part that runs when it is called, and
  the part that runs once the awaited promises have settled. No handler touches the state
  between two of its awaits, so one cut per handler is exact. A state setter is modelled
  as taking effect when it is called.
\<close>

text \<open>\<^verbatim>\<open>loadMarketData\<close> up to \<^verbatim>\<open>await Promise.all\<close>: both fetches are started.\<close>

definition loadMarketData :: "revision \<Rightarrow> world \<Rightarrow> world" where
  "loadMarketData rv w =
     w\<lparr>status := loading,
       errorMsg := (if rv = Rev2 then '''' else errorMsg w),
       sent := sent w @ [GET_history (ticker w) (period (selectedFrame w))
                           (interval (selectedFrame w)),
                         GET_news (ticker w)],
       pendingLoads := Suc (pendingLoads w)\<rparr>"

text \<open>
  The setters of the \<^verbatim>\<open>try\<close> block that store the history body, in their order. Storing
  candles that are not an array is what makes \<^verbatim>\<open>Chart\<close> throw.
\<close>

definition store_history :: "revision \<Rightarrow> historyJson \<Rightarrow> world \<Rightarrow> world" where
  "store_history rv pricesJson w =
     (if rv = Rev2
      then w\<lparr>candles := hj_candles pricesJson,
             indicators := (case hj_indicators pricesJson of
                              None \<Rightarrow> empty_indicators | Some i \<Rightarrow> i),
             rsiSeries := (case hj_rsi pricesJson of None \<Rightarrow> [] | Some r \<Rightarrow> r),
             macdSeries := hj_macd pricesJson,
             unmounted := (unmounted w \<or> hj_candles pricesJson = None)\<rparr>
      else w\<lparr>candles := hj_candles pricesJson,
             unmounted := (unmounted w \<or> hj_candles pricesJson = None)\<rparr>)"

text \<open>
  The rest of \<^verbatim>\<open>loadMarketData\<close>: the \<^verbatim>\<open>try\<close> body, the \<^verbatim>\<open>catch\<close> and the \<^verbatim>\<open>finally\<close>. Both
  bodies are read before the first setter runs. A history body that is \<^verbatim>\<open>null\<close> throws at
  \<^verbatim>\<open>pricesJson.candles\<close>, before anything is stored; a news body that is \<^verbatim>\<open>null\<close> throws at
  \<^verbatim>\<open>newsJson.news\<close>, after the history has been stored, and leaves the news as they were.
\<close>

definition loadMarketData_settled :: "revision \<Rightarrow> load_outcome \<Rightarrow> world \<Rightarrow> world" where
  "loadMarketData_settled rv outcome w =
     (case outcome of
        LoadRejected \<Rightarrow> w\<lparr>console := console w @ [LoggedException], status := idle\<rparr>
      | LoadResolved None newsBody \<Rightarrow>
          w\<lparr>console := console w @ [LoggedException], status := idle\<rparr>
      | LoadResolved (Some pricesJson) None \<Rightarrow>
          (store_history rv pricesJson w)
            \<lparr>console := console w @ [LoggedException], status := idle\<rparr>
      | LoadResolved (Some pricesJson) (Some newsJson) \<Rightarrow>
          (store_history rv pricesJson w)
            \<lparr>news := (case nj_news newsJson of None \<Rightarrow> [] | Some n \<Rightarrow> n),
             status := idle\<rparr>)"

text \<open>\<^verbatim>\<open>handleAnalyze\<close> up to \<^verbatim>\<open>await fetch\<close>.\<close>

definition handleAnalyze :: "revision \<Rightarrow> world \<Rightarrow> world" where
  "handleAnalyze rv w =
     w\<lparr>status := analyzing,
       report := empty_report,
       errorMsg := (if rv = Rev2 then '''' else errorMsg w),
       sent := sent w @ [POST_analyze (ticker w)],
       pendingAnalyze := Suc (pendingAnalyze w)\<rparr>"

text \<open>\<^verbatim>\<open>pollTask\<close>: it only creates the interval, whose handle the callback closes over.\<close>

definition pollTask :: "js_string \<Rightarrow> world \<Rightarrow> world" where
  "pollTask tid w =
     w\<lparr>intervals := intervals w @ [\<lparr>handle = nextHandle w, taskId = tid, delay = 1500\<rparr>],
       nextHandle := Suc (nextHandle w)\<rparr>"

text \<open>The \<^verbatim>\<open>catch\<close> block of \<^verbatim>\<open>handleAnalyze\<close>.\<close>

definition analyze_failed :: "revision \<Rightarrow> world \<Rightarrow> world" where
  "analyze_failed rv w =
     w\<lparr>console := console w @ [LoggedException],
       errorMsg := (if rv = Rev2
                    then ''Analyze request failed. Check API key / backend logs.''
                    else errorMsg w),
       status := idle\<rparr>"

text \<open>
  The rest of \<^verbatim>\<open>handleAnalyze\<close>. Only the current revision throws on a response that is
  not \<^verbatim>\<open>ok\<close>; the earlier one reads the body of any response. Whatever \<^verbatim>\<open>task_id\<close>
  destructures to is passed on, \<^verbatim>\<open>undefined\<close> and \<^verbatim>\<open>null\<close> included.
\<close>

definition handleAnalyze_settled :: "revision \<Rightarrow> analyze_outcome \<Rightarrow> world \<Rightarrow> world" where
  "handleAnalyze_settled rv outcome w =
     (case outcome of
        AnalyzeRejected \<Rightarrow> analyze_failed rv w
      | AnalyzeResponse ok body \<Rightarrow>
          (if rv = Rev2 \<and> \<not> ok then analyze_failed rv w
           else (case body of
                   None \<Rightarrow> analyze_failed rv w
                 | Some b \<Rightarrow> pollTask (task_id b) w)))"

text \<open>\<^verbatim>\<open>clearInterval\<close>.\<close>

definition clearInterval :: "nat \<Rightarrow> world \<Rightarrow> world" where
  "clearInterval h w = w\<lparr>intervals := filter (\<lambda>p. handle p \<noteq> h) (intervals w)\<rparr>"

text \<open>The two \<^verbatim>\<open>if\<close> statements of the interval callback, in their order.\<close>

definition on_complete :: "nat \<Rightarrow> taskJson \<Rightarrow> world \<Rightarrow> world" where
  "on_complete h task w =
     (if task_status task = Some ''complete''
      then (clearInterval h w)
             \<lparr>report := (case task_result task of
                           None \<Rightarrow> empty_report
                         | Some r \<Rightarrow> (case draft_report r of
                                        None \<Rightarrow> empty_report
                                      | Some d \<Rightarrow> d)),
              status := idle\<rparr>
      else w)"

definition on_error :: "revision \<Rightarrow> nat \<Rightarrow> taskJson \<Rightarrow> world \<Rightarrow> world" where
  "on_error rv h task w =
     (if task_status task = Some ''error''
      then (clearInterval h w)
             \<lparr>console := console w @ [LoggedCause (task_error task)],
              errorMsg := (if rv = Rev2
                           then (case task_error task of
                                   None \<Rightarrow> ''Agent run failed. Check backend logs or API keys.''
                                 | Some e \<Rightarrow>
                                     if truthy_string e then e
                                     else ''Agent run failed. Check backend logs or API keys.'')
                           else errorMsg w),
              status := idle\<rparr>
      else w)"

text \<open>
  The interval callback after its awaits. A rejected \<^verbatim>\<open>fetch\<close> or \<^verbatim>\<open>json()\<close>, or a body that
  is \<^verbatim>\<open>null\<close>, rejects the callback's own promise, which nobody handles: nothing changes
  and the interval runs on.
\<close>

definition poll_settled :: "revision \<Rightarrow> nat \<Rightarrow> poll_outcome \<Rightarrow> world \<Rightarrow> world" where
  "poll_settled rv h outcome w =
     (case outcome of
        PollRejected \<Rightarrow> w
      | PollResolved task \<Rightarrow> on_error rv h task (on_complete h task w))"

text \<open>
  The interval callback up to \<^verbatim>\<open>await fetch\<close>: it sends the poll, with the task id as the
  template literal prints it.
\<close>

definition poll_fired :: "poller \<Rightarrow> world \<Rightarrow> world" where
  "poll_fired p w =
     w\<lparr>sent := sent w @ [GET_task (handle p) (template (taskId p))],
       pendingPolls := pendingPolls w @ [handle p]\<rparr>"

subsection \<open>What the page renders\<close>

text \<open>The two action buttons of the header: their \<^verbatim>\<open>disabled\<close> attribute and their caption.\<close>

record button =
  disabled :: bool
  caption :: string

definition refreshButton :: "world \<Rightarrow> button" where
  "refreshButton w = \<lparr>disabled = (status w = loading), caption = ''Refresh''\<rparr>"

definition analyzeButton :: "world \<Rightarrow> button" where
  "analyzeButton w =
     \<lparr>disabled = (status w \<noteq> idle),
      caption = (if status w = analyzing then ''Analyzing...'' else ''Analyze'')\<rparr>"

text \<open>
  \<^verbatim>\<open>Number.prototype.toFixed(2)\<close>, following ECMA-262: a non-finite number prints as its
  name; otherwise the sign is split off and, below \<open>10\<^sup>2\<^sup>1\<close>, \<open>n\<close> is the integer nearest to
  \<open>100 x\<close> (the larger one of two), its decimal digits are padded with zeros on the left to
  three places and the point goes before the last two. From \<open>10\<^sup>2\<^sup>1\<close> on the standard
  prints the shortest digits that identify the double, which depends on the binary
  format: that conversion is the parameter \<open>toString\<close>.
\<close>

definition digit :: "nat \<Rightarrow> char" where
  "digit d = ''0123456789'' ! d"

function decimal :: "nat \<Rightarrow> string" where
  "decimal n = (if n < 10 then [digit n] else decimal (n div 10) @ [digit (n mod 10)])"
  by pat_completeness auto
termination
  by (relation "measure id") auto

definition toFixed2 :: "(rat \<Rightarrow> string) \<Rightarrow> number \<Rightarrow> string" where
  "toFixed2 toString x =
     (case x of
        NaN \<Rightarrow> ''NaN''
      | PosInf \<Rightarrow> ''Infinity''
      | NegInf \<Rightarrow> ''-Infinity''
      | Fin q \<Rightarrow>
          (let s = (if q < 0 then ''-'' else '''');
               a = \<bar>q\<bar>
           in if 10 ^ 21 \<le> a then s @ toString a
              else
                let n = nat \<lfloor>a * 100 + 1 / 2\<rfloor>;
                    m = decimal n;
                    m = (if length m \<le> 2 then replicate (3 - length m) CHR ''0'' @ m else m);
                    k = length m
                in s @ take (k - 2) m @ ''.'' @ drop (k - 2) m))"

text \<open>The badge of a news card: \<^verbatim>\<open>item.score ? item.score.toFixed(2) : "Neutral"\<close>.\<close>

definition sentimentBadge :: "(rat \<Rightarrow> string) \<Rightarrow> news_item \<Rightarrow> string" where
  "sentimentBadge toString item =
     (case score item of
        None \<Rightarrow> ''Neutral''
      | Some x \<Rightarrow> if truthy_number x then toFixed2 toString x else ''Neutral'')"

text \<open>The children of the news column: the placeholder paragraph, then one card per item.\<close>

datatype news_element =
  NoNews string
| Card string string string string

definition newsPanel :: "(rat \<Rightarrow> string) \<Rightarrow> world \<Rightarrow> news_element list" where
  "newsPanel toString w =
     (if length (news w) = 0 then [NoNews ''No news fetched (soft fail safe).''] else [])
     @ map (\<lambda>item. Card (url item) (title item) (sentimentBadge toString item) (excerpt item))
         (news w)"

text \<open>
  The insight column shows the report once it has a non-empty \<^verbatim>\<open>executive_summary\<close>.
  Until then it shows the prompt and, in the current revision only, a note while
  analyzing and the error message when there is one.
\<close>

datatype insight_line = Prompt | AnalyzingNote | ErrorLine string

datatype insight = ReportView report | PlaceholderView "insight_line list"

text \<open>The test \<^verbatim>\<open>report.executive_summary ?\<close> of the insight column.\<close>

definition has_summary :: "report \<Rightarrow> bool" where
  "has_summary r = (case executive_summary r of None \<Rightarrow> False | Some s \<Rightarrow> truthy_string s)"

definition insightPanel :: "revision \<Rightarrow> world \<Rightarrow> insight" where
  "insightPanel rv w =
     (if has_summary (report w)
      then ReportView (report w)
      else PlaceholderView
             ([Prompt]
              @ (if rv = Rev2 \<and> status w = analyzing then [AnalyzingNote] else [])
              @ (if rv = Rev2 \<and> truthy_string (errorMsg w) then [ErrorLine (errorMsg w)] else [])))"

text \<open>
  The properties the page passes to \<^verbatim>\<open>Chart\<close>: the current revision passes the candles,
  the indicators, the RSI series and \<^verbatim>\<open>macdSeries || undefined\<close>; the earlier one passes the
  candles only.
\<close>

definition chart_props :: "revision \<Rightarrow> world \<Rightarrow> props" where
  "chart_props rv w =
     (if rv = Rev2
      then \<lparr>p_candles = candles w, p_indicators = Some (indicators w),
            p_rsi = Some (rsiSeries w), p_macd = macdSeries w\<rparr>
      else \<lparr>p_candles = candles w, p_indicators = None, p_rsi = None, p_macd = None\<rparr>)"

text \<open>
  What is on the screen: the series of the chart, the two buttons, the insight column and
  the news column. The chart's container is mounted together with the page, and
  \<open>showSMA\<close> is the state of the check boxes of the chart. Nothing is on the screen
  (\<open>None\<close>) once the page has been taken off it, or when the effect of \<^verbatim>\<open>Chart\<close> throws.
\<close>

record screen =
  chart :: "series list"
  refresh :: button
  analyze :: button
  insight_column :: insight
  news_column :: "news_element list"

definition render :: "revision \<Rightarrow> (rat \<Rightarrow> string) \<Rightarrow> showSMA \<Rightarrow> world \<Rightarrow> screen option" where
  "render rv toString s w =
     (if unmounted w then None
      else
        (case Chart True s (chart_props rv w) of
           Inl e \<Rightarrow> None
         | Inr built \<Rightarrow>
             Some \<lparr>chart = (case built of None \<Rightarrow> [] | Some ss \<Rightarrow> ss),
                   refresh = refreshButton w,
                   analyze = analyzeButton w,
                   insight_column = insightPanel rv w,
                   news_column = newsPanel toString w\<rparr>))"

subsection \<open>What can happen to the page\<close>

text \<open>
  The user types into the ticker field, clicks a time frame, \<^verbatim>\<open>Refresh\<close> or \<^verbatim>\<open>Analyze\<close>;
  the browser fires an interval or settles the promises of a handler. A click on a
  disabled button does nothing; an interval that was cleared does not fire; a promise
  settles only if its handler is waiting for it. The effect on \<^verbatim>\<open>selectedFrame\<close> runs
  \<^verbatim>\<open>loadMarketData\<close> after the first render and whenever a click selects another frame.

  The steps do not ask whether the page is still on the screen. For what the browser
  holds beside the component that is what happens: intervals keep firing and promises
  keep settling. For the component it is more than can happen, since nobody can click
  on a page that is gone and its setters no longer show: the runs below include every
  run of the page, and the buttons and columns defined above are on the screen only as
  far as \<open>render\<close> shows them.
\<close>

datatype event =
  TypeTicker codepoints
| SelectFrame timeframe
| ClickRefresh
| ClickAnalyze
| LoadSettled load_outcome
| AnalyzeSettled analyze_outcome
| TimerFire nat
| PollSettled nat poll_outcome

fun step :: "revision \<Rightarrow> (nat \<Rightarrow> codepoints) \<Rightarrow> event \<Rightarrow> world \<Rightarrow> world" where
  "step rv uni (TypeTicker v) w = w\<lparr>ticker := toUpperCase uni v\<rparr>"
| "step rv uni (SelectFrame tf) w =
     (if tf \<in> set TIMEFRAMES \<and> tf \<noteq> selectedFrame w
      then loadMarketData rv (w\<lparr>selectedFrame := tf\<rparr>) else w)"
| "step rv uni ClickRefresh w =
     (if \<not> disabled (refreshButton w) then loadMarketData rv w else w)"
| "step rv uni ClickAnalyze w =
     (if \<not> disabled (analyzeButton w) then handleAnalyze rv w else w)"
| "step rv uni (LoadSettled outcome) w =
     (if 0 < pendingLoads w
      then loadMarketData_settled rv outcome (w\<lparr>pendingLoads := pendingLoads w - 1\<rparr>)
      else w)"
| "step rv uni (AnalyzeSettled outcome) w =
     (if 0 < pendingAnalyze w
      then handleAnalyze_settled rv outcome (w\<lparr>pendingAnalyze := pendingAnalyze w - 1\<rparr>)
      else w)"
| "step rv uni (TimerFire h) w =
     (case find (\<lambda>p. handle p = h) (intervals w) of
        None \<Rightarrow> w
      | Some p \<Rightarrow> poll_fired p w)"
| "step rv uni (PollSettled h outcome) w =
     (if h \<in> set (pendingPolls w)
      then poll_settled rv h outcome (w\<lparr>pendingPolls := remove1 h (pendingPolls w)\<rparr>)
      else w)"

fun run :: "revision \<Rightarrow> (nat \<Rightarrow> codepoints) \<Rightarrow> event list \<Rightarrow> world \<Rightarrow> world" where
  "run rv uni [] w = w"
| "run rv uni (e # es) w = run rv uni es (step rv uni e w)"

text \<open>The page once mounted: the first render followed by the first run of the effect.\<close>

definition mounted :: "revision \<Rightarrow> world" where
  "mounted rv = loadMarketData rv first_render"

section \<open>The task pipeline\<close>

text \<open>
  Modelled from the spec: the pipeline orchestrator and its four stage functions
  (\<^verbatim>\<open>backend/agents/graph.py\<close>, named in the README) are missing from the sources. The
  definitions of this section follow sections 3, 4.2, 4.3 and 4.4 of the specification
  word by word. What the specification leaves to the collaborators is a field of
  \<open>capabilities\<close>: the price source (asked by attempt number), the news source, the
  indicator engine, the drafter (given the pipeline state its prompt is built from, and
  whether the stricter formatting instruction is added), the parser of its answer, the
  two criteria of the Critic (\<open>None\<close> when the draft passes, otherwise the description of
  the mismatch) and the confidence implied by the completeness of the data.
\<close>

datatype confidence = High | Medium | Low

record draft =
  content :: report
  level :: "confidence option"

record pipeline_state =
  ps_ticker :: string
  ps_ohlcv :: "candle list"
  ps_indicators :: indicatorSeries
  ps_news :: "news_item list"
  ps_draft_report :: draft
  critic_feedback :: "string option"
  revision_count :: nat
  writer_calls :: nat

text \<open>
  \<open>writer_calls\<close> is not a field of the specification's record: it counts the
  invocations of the Writer so that they can be bounded.
\<close>

record capabilities =
  fetch_prices :: "string \<Rightarrow> nat \<Rightarrow> candle list option"
  fetch_news :: "string \<Rightarrow> news_item list option"
  compute_indicators :: "candle list \<Rightarrow> indicatorSeries"
  drafter :: "pipeline_state \<Rightarrow> bool \<Rightarrow> string"
  parse_draft :: "string \<Rightarrow> draft option"
  mismatch :: "draft \<Rightarrow> indicatorSeries \<Rightarrow> string option"
  implied_confidence :: "pipeline_state \<Rightarrow> confidence"

datatype stage =
  Submitted | Researching | Analyzing | Drafting | Reviewing | Done | Failed string

text \<open>
  Modelled from the spec: the market data gateway (\<^verbatim>\<open>backend/agents/tools.py\<close>) is missing.
  Section 4.2: the price fetch is tried up to 3 times with the same parameters on any
  transient failure, which is a network error or provider error status (the source
  answers \<open>None\<close>) or an empty payload; the news fetch returns the empty sequence on any
  failure.
\<close>

fun price_fetch :: "(nat \<Rightarrow> candle list option) \<Rightarrow> nat \<Rightarrow> nat \<Rightarrow> candle list option" where
  "price_fetch source attempt 0 = None"
| "price_fetch source attempt (Suc left) =
     (case source attempt of
        Some bars \<Rightarrow>
          if bars = [] then price_fetch source (Suc attempt) left else Some bars
      | None \<Rightarrow> price_fetch source (Suc attempt) left)"

definition news_fetch :: "news_item list option \<Rightarrow> news_item list" where
  "news_fetch answer = (case answer of None \<Rightarrow> [] | Some items \<Rightarrow> items)"

text \<open>
  Modelled from the spec: the Writer stage is missing. Section 4.3: it invokes the drafter and parses the answer; an answer that is
  not valid structured content makes it invoke the drafter once more, with the stricter
  formatting instruction, before it gives up (\<open>None\<close>, the fatal parsing error).
\<close>

definition writer :: "capabilities \<Rightarrow> pipeline_state \<Rightarrow> draft option" where
  "writer caps s =
     (case parse_draft caps (drafter caps s False) of
        Some d \<Rightarrow> Some d
      | None \<Rightarrow> parse_draft caps (drafter caps s True))"

text \<open>
  Modelled from the spec: the Critic stage is missing. Section 4.3: on a mismatch it increments \<open>revision_count\<close>, attaches the
  feedback and routes back to the Writer, unless \<open>revision_count\<close> has already reached
  2, in which case it accepts the current draft with confidence \<open>Low\<close>.
\<close>

definition critic :: "capabilities \<Rightarrow> pipeline_state \<Rightarrow> stage \<times> pipeline_state" where
  "critic caps s =
     (case mismatch caps (ps_draft_report s) (ps_indicators s) of
        None \<Rightarrow>
          (Done, s\<lparr>ps_draft_report :=
                      (ps_draft_report s)\<lparr>level := Some (implied_confidence caps s)\<rparr>\<rparr>)
      | Some feedback \<Rightarrow>
          if 2 \<le> revision_count s
          then (Done, s\<lparr>ps_draft_report := (ps_draft_report s)\<lparr>level := Some Low\<rparr>\<rparr>)
          else (Drafting, s\<lparr>revision_count := Suc (revision_count s),
                            critic_feedback := Some feedback\<rparr>))"

text \<open>
  Modelled from the spec: the orchestrator is missing. Section 4.4: one edge of its state
  machine. The two failures are named as section 7 distinguishes them.
\<close>

fun transition :: "capabilities \<Rightarrow> stage \<Rightarrow> pipeline_state \<Rightarrow> stage \<times> pipeline_state" where
  "transition caps Submitted s = (Researching, s)"
| "transition caps Researching s =
     (case price_fetch (fetch_prices caps (ps_ticker s)) 0 3 of
        None \<Rightarrow> (Failed ''price data unavailable after retries'', s)
      | Some bars \<Rightarrow>
          (Analyzing, s\<lparr>ps_ohlcv := bars,
                        ps_news := news_fetch (fetch_news caps (ps_ticker s))\<rparr>))"
| "transition caps Analyzing s =
     (Drafting, s\<lparr>ps_indicators := compute_indicators caps (ps_ohlcv s)\<rparr>)"
| "transition caps Drafting s =
     (case writer caps s of
        None \<Rightarrow> (Failed ''drafting failed'', s\<lparr>writer_calls := Suc (writer_calls s)\<rparr>)
      | Some d \<Rightarrow>
          (Reviewing, s\<lparr>ps_draft_report := d, writer_calls := Suc (writer_calls s)\<rparr>))"
| "transition caps Reviewing s = critic caps s"
| "transition caps Done s = (Done, s)"
| "transition caps (Failed cause) s = (Failed cause, s)"

fun terminal :: "stage \<Rightarrow> bool" where
  "terminal Done = True"
| "terminal (Failed cause) = True"
| "terminal _ = False"

text \<open>How many edges a task can still take: the revisions left, twice, and the stages ahead.\<close>

fun ahead :: "stage \<Rightarrow> nat" where
  "ahead Submitted = 5"
| "ahead Researching = 4"
| "ahead Analyzing = 3"
| "ahead Drafting = 2"
| "ahead Reviewing = 1"
| "ahead _ = 0"

definition edges_left :: "stage \<Rightarrow> pipeline_state \<Rightarrow> nat" where
  "edges_left st s = 2 * (2 - revision_count s) + ahead st"

text \<open>
  Modelled from the spec: the orchestrator is missing. It follows the edges until the task
  is in a terminal stage.
\<close>

function orchestrate :: "capabilities \<Rightarrow> stage \<Rightarrow> pipeline_state \<Rightarrow> stage \<times> pipeline_state" where
  "orchestrate caps st s =
     (if terminal st then (st, s)
      else (case transition caps st s of (st', s') \<Rightarrow> orchestrate caps st' s'))"
  by pat_completeness auto
termination
  apply (relation "measure (\<lambda>(caps, st, s). edges_left st s)")
   apply simp
  subgoal for caps st
    by (cases st) (auto simp: edges_left_def critic_def split: option.splits if_splits)
  done

text \<open>
  Modelled from the spec: the submit operation is missing. Section 4.5: a fresh pipeline
  state for the ticker, nothing drafted or revised yet, handed to the orchestrator.
\<close>

definition submitted :: "string \<Rightarrow> pipeline_state" where
  "submitted t =
     \<lparr>ps_ticker = t, ps_ohlcv = [], ps_indicators = empty_indicators, ps_news = [],
      ps_draft_report = \<lparr>content = empty_report, level = None\<rparr>, critic_feedback = None,
      revision_count = 0, writer_calls = 0\<rparr>"

definition run_task :: "capabilities \<Rightarrow> string \<Rightarrow> stage \<times> pipeline_state" where
  "run_task caps t = orchestrate caps Submitted (submitted t)"

declare orchestrate.simps [simp del]
declare decimal.simps [simp del]

section \<open>Notions used to state the properties\<close>

text \<open>
  The text a request splices after \<^verbatim>\<open>ticker=\<close>; a poll splices none. It is the ticker of the
  state as it is: the page does not percent-encode it, so the value the server reads for
  the parameter is whatever its decoding of the query string makes of this text.
\<close>

fun spliced_ticker :: "request \<Rightarrow> codepoints option" where
  "spliced_ticker (GET_history t p i) = Some t"
| "spliced_ticker (GET_news t) = Some t"
| "spliced_ticker (POST_analyze t) = Some t"
| "spliced_ticker (GET_task h tid) = None"

text \<open>The value of the ticker field after the last change made by the user, if any.\<close>

fun last_input :: "event list \<Rightarrow> codepoints option" where
  "last_input [] = None"
| "last_input (TypeTicker v # es) =
     (case last_input es of None \<Rightarrow> Some v | Some v' \<Rightarrow> Some v')"
| "last_input (_ # es) = last_input es"

text \<open>The polls sent by the callback of one interval, and the polls sent for one task.\<close>

fun polled_by :: "nat \<Rightarrow> request \<Rightarrow> bool" where
  "polled_by h (GET_task h' tid) = (h' = h)"
| "polled_by h _ = False"

fun poll_for :: "string \<Rightarrow> request \<Rightarrow> bool" where
  "poll_for t (GET_task h tid) = (tid = t)"
| "poll_for t _ = False"

text \<open>
  An answer to a submission that the page accepts and that names the task \<open>t\<close>, and a
  running interval for \<open>t\<close>; a task is taken as the URL of the poll spells it.
\<close>

fun names_task :: "revision \<Rightarrow> string \<Rightarrow> event \<Rightarrow> bool" where
  "names_task rv t (AnalyzeSettled (AnalyzeResponse ok (Some b))) =
     ((rv = Rev1 \<or> ok) \<and> template (task_id b) = t)"
| "names_task rv t _ = False"

definition polls_task :: "string \<Rightarrow> poller \<Rightarrow> bool" where
  "polls_task t p = (template (taskId p) = t)"

fun analyze_request :: "request \<Rightarrow> bool" where
  "analyze_request (POST_analyze t) = True"
| "analyze_request _ = False"

definition terminal_status :: "taskJson \<Rightarrow> bool" where
  "terminal_status task =
     (task_status task = Some ''complete'' \<or> task_status task = Some ''error'')"

text \<open>The outcomes of the \<^verbatim>\<open>POST\<close> that end in the \<^verbatim>\<open>catch\<close> block of \<^verbatim>\<open>handleAnalyze\<close>.\<close>

fun analyze_request_failed :: "revision \<Rightarrow> analyze_outcome \<Rightarrow> bool" where
  "analyze_request_failed rv AnalyzeRejected = True"
| "analyze_request_failed rv (AnalyzeResponse ok body) = ((rv = Rev2 \<and> \<not> ok) \<or> body = None)"

text \<open>
  A lowercase letter: one of \<^verbatim>\<open>a\<close> to \<^verbatim>\<open>z\<close>, or a code point beyond ASCII that the Unicode
  Character Database lists as lowercase, which is the parameter \<open>lower\<close>.
\<close>

definition lowercase_letter :: "(nat \<Rightarrow> bool) \<Rightarrow> nat \<Rightarrow> bool" where
  "lowercase_letter lower c = (if c < 128 then ascii_lowercase c else lower c)"

text \<open>A text without any lowercase letter.\<close>

definition no_lowercase :: "(nat \<Rightarrow> bool) \<Rightarrow> codepoints \<Rightarrow> bool" where
  "no_lowercase lower t = list_all (\<lambda>c. \<not> lowercase_letter lower c) t"

text \<open>
  A text in which upper-casing has nothing left to do: each of its lowercase letters is
  its own upper-case mapping. And a page all of whose tickers, the one in the state and
  those spliced into the requests sent, are such.
\<close>

definition uppercased :: "(nat \<Rightarrow> codepoints) \<Rightarrow> (nat \<Rightarrow> bool) \<Rightarrow> codepoints \<Rightarrow> bool" where
  "uppercased uni lower t =
     list_all (\<lambda>c. lowercase_letter lower c \<longrightarrow> upper_mapping uni c = [c]) t"

definition tickers_upper :: "(nat \<Rightarrow> codepoints) \<Rightarrow> (nat \<Rightarrow> bool) \<Rightarrow> world \<Rightarrow> bool" where
  "tickers_upper uni lower w =
     (uppercased uni lower (ticker w) \<and>
      list_all (\<lambda>r. case spliced_ticker r of None \<Rightarrow> True | Some t \<Rightarrow> uppercased uni lower t)
        (sent w))"

text \<open>
  What the invariant of the ticker asks of the Unicode tables: upper-casing a code point
  beyond ASCII yields no lowercase letter that upper-casing would change again.
\<close>

definition upper_stable :: "(nat \<Rightarrow> codepoints) \<Rightarrow> (nat \<Rightarrow> bool) \<Rightarrow> bool" where
  "upper_stable uni lower = (\<forall>c. 128 \<le> c \<longrightarrow> uppercased uni lower (uni c))"

text \<open>
  Handles are handed out in increasing order: every running interval and every poll in
  flight has a handle below the next one, no two running intervals share a handle, and
  every interval was created with the delay of 1500 milliseconds.
\<close>

definition handles_fresh :: "world \<Rightarrow> bool" where
  "handles_fresh w =
     (list_all (\<lambda>p. handle p < nextHandle w \<and> delay p = 1500) (intervals w) \<and>
      distinct (map handle (intervals w)) \<and>
      list_all (\<lambda>h. h < nextHandle w) (pendingPolls w))"

text \<open>
  Instances of the parameters for closed statements. \<open>caseless\<close> is a case table in which
  no code point beyond ASCII has an upper-case form of its own. \<open>ucd_upper\<close> and
  \<open>ucd_lower\<close> hold three rows of the Unicode Character Database (\<^verbatim>\<open>UnicodeData.txt\<close>,
  \<^verbatim>\<open>SpecialCasing.txt\<close>) and treat every other code point as caseless: U+00DF, the
  lowercase sharp s, whose upper-case mapping is \<^verbatim>\<open>SS\<close>; U+00E9, the lowercase e with acute,
  whose upper-case mapping is U+00C9; and U+0138, the lowercase letter kra, which has no
  upper-case mapping. \<open>exponent_form\<close> is a conversion for numbers from \<open>10\<^sup>2\<^sup>1\<close> on that
  prints them all alike.
\<close>

definition caseless :: "nat \<Rightarrow> codepoints" where
  "caseless c = [c]"

definition ucd_upper :: "nat \<Rightarrow> codepoints" where
  "ucd_upper c = (if c = 223 then [83, 83] else if c = 233 then [201] else [c])"

definition ucd_lower :: "nat \<Rightarrow> bool" where
  "ucd_lower c = (c = 223 \<or> c = 233 \<or> c = 312)"

definition exponent_form :: "rat \<Rightarrow> string" where
  "exponent_form x = ''1e+21''"

text \<open>
  A page in the middle of an analysis: the first load has failed, the user has clicked
  \<^verbatim>\<open>Analyze\<close>, the server has answered with the task \<^verbatim>\<open>t1\<close>, and the interval has fired once,
  so that one poll is in flight.
\<close>

definition polling_page :: "revision \<Rightarrow> world" where
  "polling_page rv =
     run rv caseless
       [LoadSettled LoadRejected,
        ClickAnalyze,
        AnalyzeSettled (AnalyzeResponse True (Some \<lparr>task_id = Text ''t1''\<rparr>)),
        TimerFire 0]
       (mounted rv)"



section \<open>Properties of the chart\<close>

lemma volumeSeries_append: "volumeSeries (xs @ ys) = volumeSeries xs @ volumeSeries ys"
  by (induction xs rule: volumeSeries.induct) simp_all

lemma volumeSeries_overlay: "volumeSeries (overlay b l c) = []"
  by (simp add: overlay_def split: option.splits)

lemma volumeSeries_overlays: "volumeSeries (overlays s ind) = []"
  by (simp add: overlays_def volumeSeries_append volumeSeries_overlay split: option.splits)

text \<open>
  With an array of candles the effect runs to its end, whatever else is passed, and the
  chart it builds has one volume histogram, fed with the bar of each candle in order.
\<close>

lemma Chart_builds:
  assumes "p_candles p = Some cs"
  shows "\<exists>ss. Chart True s p = Inr (Some ss) \<and> volumeSeries ss = [map volumeBar cs]"
  using assms
  by (simp add: Chart_def volumeSeries_append volumeSeries_overlays split: option.splits)

lemma render_chart:
  assumes "\<not> unmounted w" and "Chart True s (chart_props rv w) = Inr (Some ss)"
  shows "\<exists>v. render rv toString s w = Some v \<and> chart v = ss"
  using assms by (simp add: render_def)

text \<open>
  C9. For every candle in the chart's input, the volume sub-panel renders exactly one
  histogram bar whose value equals the candle's volume, or 0 when volume is absent, and
  whose color is the up-color if and only if close \<ge> open. Here: whenever the candles
  passed to \<^verbatim>\<open>Chart\<close> are an array, the effect builds a chart once the container is mounted,
  whichever indicators, RSI and MACD series are passed along; that chart has a single
  volume histogram, which has as many bars as there are candles, and its \<open>i\<close>-th bar
  carries the time of the \<open>i\<close>-th candle, its volume (0 when absent) and the up-colour
  exactly when \<^verbatim>\<open>close >= open\<close>; and every page that is on the screen and passes these
  properties shows this chart.
\<close>

theorem volume_histogram_one_bar_per_candle:
  assumes "p_candles p = Some cs"
  shows "\<exists>ss bars.
           Chart True s p = Inr (Some ss) \<and>
           volumeSeries ss = [bars] \<and> length bars = length cs \<and>
           (\<forall>i < length cs.
              h_time (bars ! i) = time (cs ! i) \<and>
              h_value (bars ! i) = (case volume (cs ! i) of None \<Rightarrow> Fin 0 | Some v \<Rightarrow> v) \<and>
              (h_color (bars ! i) = ''rgba(110, 231, 183, 0.5)''
                 \<longleftrightarrow> js_ge (close (cs ! i)) (open (cs ! i)))) \<and>
           (\<forall>rv toString w.
              \<not> unmounted w \<and> chart_props rv w = p \<longrightarrow>
              (\<exists>v. render rv toString s w = Some v \<and> chart v = ss))"
proof -
  from Chart_builds [OF assms]
  obtain ss where ss: "Chart True s p = Inr (Some ss)"
    and vol: "volumeSeries ss = [map volumeBar cs]"
    by blast
  have bars: "\<forall>i < length cs.
      h_time (map volumeBar cs ! i) = time (cs ! i) \<and>
      h_value (map volumeBar cs ! i) = (case volume (cs ! i) of None \<Rightarrow> Fin 0 | Some v \<Rightarrow> v) \<and>
      (h_color (map volumeBar cs ! i) = ''rgba(110, 231, 183, 0.5)''
         \<longleftrightarrow> js_ge (close (cs ! i)) (open (cs ! i)))"
    by (simp add: volumeBar_def)
  have shown: "\<forall>rv toString w.
      \<not> unmounted w \<and> chart_props rv w = p \<longrightarrow>
      (\<exists>v. render rv toString s w = Some v \<and> chart v = ss)"
    using ss render_chart by blast
  from ss vol bars shown show ?thesis
    by (intro exI [of _ ss] exI [of _ "map volumeBar cs"]) simp
qed

theorem volume_histogram_one_bar_per_candle_witness:
  "\<exists>v bars.
     render Rev2 exponent_form \<lparr>show_sma50 = True, show_sma200 = True, show_ema20 = False\<rparr>
       (step Rev2 caseless
          (LoadSettled (LoadResolved
             (Some \<lparr>hj_candles =
                      Some [\<lparr>time = ''2024-01-02'', open = Fin 10, high = Fin 12, low = Fin 9,
                             close = Fin 11, volume = Some (Fin 500)\<rparr>,
                            \<lparr>time = ''2024-01-03'', open = Fin 11, high = Fin 11, low = Fin 8,
                             close = Fin 9, volume = None\<rparr>],
                    hj_indicators = Some \<lparr>sma50 = Some [], sma200 = None, ema20 = None\<rparr>,
                    hj_rsi = Some [\<lparr>l_time = ''2024-01-03'', l_value = Fin 41\<rparr>],
                    hj_macd = Some \<lparr>macd = [], signal = [], histogram = []\<rparr>\<rparr>)
             (Some \<lparr>nj_news = Some []\<rparr>)))
          (mounted Rev2)) = Some v \<and>
     volumeSeries (chart v) = [bars] \<and> length bars = 2 \<and>
     h_value (bars ! 0) = Fin 500 \<and> h_color (bars ! 0) = ''rgba(110, 231, 183, 0.5)'' \<and>
     h_value (bars ! 1) = Fin 0 \<and> h_color (bars ! 1) \<noteq> ''rgba(110, 231, 183, 0.5)''"
proof -
  let ?s = "\<lparr>show_sma50 = True, show_sma200 = True, show_ema20 = False\<rparr>"
  let ?cs = "[\<lparr>time = ''2024-01-02'', open = Fin 10, high = Fin 12, low = Fin 9,
               close = Fin 11, volume = Some (Fin 500)\<rparr>,
              \<lparr>time = ''2024-01-03'', open = Fin 11, high = Fin 11, low = Fin 8,
               close = Fin 9, volume = None\<rparr>]"
  let ?w = "step Rev2 caseless
          (LoadSettled (LoadResolved
             (Some \<lparr>hj_candles = Some ?cs,
                    hj_indicators = Some \<lparr>sma50 = Some [], sma200 = None, ema20 = None\<rparr>,
                    hj_rsi = Some [\<lparr>l_time = ''2024-01-03'', l_value = Fin 41\<rparr>],
                    hj_macd = Some \<lparr>macd = [], signal = [], histogram = []\<rparr>\<rparr>)
             (Some \<lparr>nj_news = Some []\<rparr>)))
          (mounted Rev2)"
  have passed: "p_candles (chart_props Rev2 ?w) = Some ?cs"
    and on_screen: "\<not> unmounted ?w"
    by (simp_all add: chart_props_def loadMarketData_settled_def store_history_def mounted_def
          loadMarketData_def first_render_def)
  from volume_histogram_one_bar_per_candle [OF passed, of ?s]
  obtain ss bars where b: "volumeSeries ss = [bars]" "length bars = 2"
    and each: "\<forall>i < 2.
              h_time (bars ! i) = time (?cs ! i) \<and>
              h_value (bars ! i) = (case volume (?cs ! i) of None \<Rightarrow> Fin 0 | Some v \<Rightarrow> v) \<and>
              (h_color (bars ! i) = ''rgba(110, 231, 183, 0.5)''
                 \<longleftrightarrow> js_ge (close (?cs ! i)) (open (?cs ! i)))"
    and shown: "\<forall>rv toString w.
              \<not> unmounted w \<and> chart_props rv w = chart_props Rev2 ?w \<longrightarrow>
              (\<exists>v. render rv toString ?s w = Some v \<and> chart v = ss)"
    by auto
  from shown on_screen obtain v where v: "render Rev2 exponent_form ?s ?w = Some v" "chart v = ss"
    by blast
  from each have "h_value (bars ! 0) = Fin 500 \<and> h_color (bars ! 0) = ''rgba(110, 231, 183, 0.5)''"
    by simp
  moreover from each have "h_value (bars ! 1) = Fin 0 \<and> h_color (bars ! 1) \<noteq> ''rgba(110, 231, 183, 0.5)''"
    by simp
  ultimately show ?thesis
    using v b by blast
qed

section \<open>Properties of the task pipeline\<close>

text \<open>
  From any stage the orchestrator ends in a terminal stage, and the Writer is invoked at
  most once per revision still allowed, plus once more unless the task is already under
  review.
\<close>

lemma orchestrate_budget:
  "orchestrate caps st s = (st', s') \<Longrightarrow>
     terminal st' \<and>
     writer_calls s' \<le> writer_calls s + (2 - revision_count s)
                        + (if st = Reviewing \<or> terminal st then 0 else 1)"
proof (induction caps st s arbitrary: st' s' rule: orchestrate.induct)
  case (1 caps st s)
  show ?case
  proof (cases "terminal st")
    case True
    with "1.prems" show ?thesis
      by (simp add: orchestrate.simps)
  next
    case False
    obtain st1 s1 where tr: "transition caps st s = (st1, s1)"
      by (cases "transition caps st s")
    with False "1.prems" have run: "orchestrate caps st1 s1 = (st', s')"
      by (simp add: orchestrate.simps)
    from "1.IH" [OF False tr [symmetric] run]
    have ih: "terminal st'"
      "writer_calls s' \<le> writer_calls s1 + (2 - revision_count s1)
                        + (if st1 = Reviewing \<or> terminal st1 then 0 else 1)"
      by simp_all
    from False tr have
      "writer_calls s1 + (2 - revision_count s1)
         + (if st1 = Reviewing \<or> terminal st1 then 0 else 1)
       \<le> writer_calls s + (2 - revision_count s)
           + (if st = Reviewing \<or> terminal st then 0 else 1)"
      by (cases st) (auto simp: critic_def split: option.splits if_splits)
    with ih show ?thesis
      by simp
  qed
qed

lemma forced_acceptance:
  assumes "mismatch caps (ps_draft_report s) (ps_indicators s) = Some feedback"
    and "2 \<le> revision_count s"
  shows "orchestrate caps Reviewing s =
           (Done, s\<lparr>ps_draft_report := (ps_draft_report s)\<lparr>level := Some Low\<rparr>\<rparr>)"
  using assms by (simp add: orchestrate.simps critic_def)

text \<open>
  The bound is reached: with a price source that fails, then answers with an empty
  payload, then delivers, a Critic that rejects every draft sees three of them.
\<close>

lemma three_writer_invocations_occur:
  "run_task \<lparr>fetch_prices =
               (\<lambda>t n. if n = 0 then None
                       else if n = 1 then Some []
                       else Some [\<lparr>time = ''2024-01-02'', open = Fin 10, high = Fin 12,
                                   low = Fin 9, close = Fin 11, volume = None\<rparr>]),
             fetch_news = (\<lambda>t. None),
             compute_indicators = (\<lambda>bars. empty_indicators),
             drafter = (\<lambda>s strict. ''{}''),
             parse_draft = (\<lambda>answer. Some \<lparr>content = empty_report, level = None\<rparr>),
             mismatch = (\<lambda>d i. Some ''rsi''),
             implied_confidence = (\<lambda>s. High)\<rparr> ''AAPL''
     = (Done, (submitted ''AAPL'')
                \<lparr>ps_ohlcv := [\<lparr>time = ''2024-01-02'', open = Fin 10, high = Fin 12,
                                low = Fin 9, close = Fin 11, volume = None\<rparr>],
                 critic_feedback := Some ''rsi'', revision_count := 2, writer_calls := 3,
                 ps_draft_report := \<lparr>content = empty_report, level = Some Low\<rparr>\<rparr>)"
  by (simp add: run_task_def orchestrate.simps submitted_def critic_def writer_def
        news_fetch_def numeral_3_eq_3)

text \<open>A price source that answers three times with an empty payload fails the task.\<close>

lemma empty_payloads_exhaust_the_retries:
  "fst (run_task (caps\<lparr>fetch_prices := (\<lambda>t n. Some [])\<rparr>) t)
     = Failed ''price data unavailable after retries''"
  by (simp add: run_task_def orchestrate.simps numeral_3_eq_3)

text \<open>
  C4. For every task execution, the Drafting/Reviewing loop invokes the Writer at most 3
  times in total: when the Critic rejects a draft with \<open>revision_count\<close> already at 2, it
  accepts the current draft, forcibly sets confidence = Low, and terminates the loop, so
  the pipeline always terminates. Here: a submitted task ends in a terminal stage with at
  most 3 Writer invocations, whatever the collaborators answer; and a rejection under
  review at \<open>revision_count = 2\<close> ends the task in \<open>Done\<close> with the draft it had, now at
  confidence \<open>Low\<close>, and no further Writer invocation.
\<close>

theorem writer_invoked_at_most_three_times:
  "terminal (fst (run_task caps t)) \<and>
   writer_calls (snd (run_task caps t)) \<le> 3 \<and>
   (\<forall>s feedback.
      mismatch caps (ps_draft_report s) (ps_indicators s) = Some feedback \<and>
      revision_count s = 2 \<longrightarrow>
      orchestrate caps Reviewing s =
        (Done, s\<lparr>ps_draft_report := (ps_draft_report s)\<lparr>level := Some Low\<rparr>\<rparr>))"
proof -
  obtain st' s' where r: "orchestrate caps Submitted (submitted t) = (st', s')"
    by (cases "orchestrate caps Submitted (submitted t)")
  from orchestrate_budget [OF r]
  have "terminal st'" and "writer_calls s' \<le> 3"
    by (simp_all add: submitted_def)
  with r show ?thesis
    by (simp add: run_task_def forced_acceptance)
qed

theorem writer_invoked_at_most_three_times_witness:
  "mismatch \<lparr>fetch_prices = (\<lambda>t n. None),
             fetch_news = (\<lambda>t. None),
             compute_indicators = (\<lambda>bars. empty_indicators),
             drafter = (\<lambda>s strict. ''{}''),
             parse_draft = (\<lambda>answer. Some \<lparr>content = empty_report, level = None\<rparr>),
             mismatch = (\<lambda>d i. Some ''rsi''),
             implied_confidence = (\<lambda>s. High)\<rparr>
      (ps_draft_report ((submitted ''AAPL'')\<lparr>revision_count := 2\<rparr>))
      (ps_indicators ((submitted ''AAPL'')\<lparr>revision_count := 2\<rparr>)) = Some ''rsi'' \<and>
   revision_count ((submitted ''AAPL'')\<lparr>revision_count := 2\<rparr>) = 2 \<and>
   orchestrate \<lparr>fetch_prices = (\<lambda>t n. None),
                fetch_news = (\<lambda>t. None),
                compute_indicators = (\<lambda>bars. empty_indicators),
                drafter = (\<lambda>s strict. ''{}''),
                parse_draft = (\<lambda>answer. Some \<lparr>content = empty_report, level = None\<rparr>),
                mismatch = (\<lambda>d i. Some ''rsi''),
                implied_confidence = (\<lambda>s. High)\<rparr>
      Reviewing ((submitted ''AAPL'')\<lparr>revision_count := 2\<rparr>) =
     (Done, (submitted ''AAPL'')
              \<lparr>revision_count := 2,
               ps_draft_report := \<lparr>content = empty_report, level = Some Low\<rparr>\<rparr>)"
proof -
  let ?caps = "\<lparr>fetch_prices = (\<lambda>t n. None),
                fetch_news = (\<lambda>t. None),
                compute_indicators = (\<lambda>bars. empty_indicators),
                drafter = (\<lambda>s strict. ''{}''),
                parse_draft = (\<lambda>answer. Some \<lparr>content = empty_report, level = None\<rparr>),
                mismatch = (\<lambda>d i. Some ''rsi''),
                implied_confidence = (\<lambda>s. High)\<rparr>"
  let ?s = "(submitted ''AAPL'')\<lparr>revision_count := 2\<rparr>"
  have hyp: "mismatch ?caps (ps_draft_report ?s) (ps_indicators ?s) = Some ''rsi'' \<and>
             revision_count ?s = 2"
    by simp
  from writer_invoked_at_most_three_times [of ?caps "''AAPL''"]
  have "mismatch ?caps (ps_draft_report ?s) (ps_indicators ?s) = Some ''rsi'' \<and>
        revision_count ?s = 2 \<longrightarrow>
        orchestrate ?caps Reviewing ?s =
          (Done, ?s\<lparr>ps_draft_report := (ps_draft_report ?s)\<lparr>level := Some Low\<rparr>\<rparr>)"
    by blast
  with hyp have "orchestrate ?caps Reviewing ?s =
          (Done, ?s\<lparr>ps_draft_report := (ps_draft_report ?s)\<lparr>level := Some Low\<rparr>\<rparr>)"
    by blast
  then show ?thesis
    by (simp add: submitted_def)
qed

section \<open>Properties of the dashboard page\<close>

lemmas handler_defs =
  loadMarketData_def loadMarketData_settled_def store_history_def handleAnalyze_def
  handleAnalyze_settled_def analyze_failed_def pollTask_def clearInterval_def on_complete_def
  on_error_def poll_settled_def poll_fired_def refreshButton_def analyzeButton_def

lemma polling_page_eq:
  "polling_page rv =
     \<lparr>ticker = AAPL, selectedFrame = TIMEFRAMES ! 3, candles = Some [],
      indicators = empty_indicators, rsiSeries = [], macdSeries = None, news = [],
      report = empty_report, status = analyzing, errorMsg = '''',
      unmounted = False,
      intervals = [\<lparr>handle = 0, taskId = Text ''t1'', delay = 1500\<rparr>], nextHandle = 1,
      pendingLoads = 0, pendingAnalyze = 0, pendingPolls = [0],
      sent = [GET_history AAPL ''1y'' ''1d'', GET_news AAPL, POST_analyze AAPL,
              GET_task 0 ''t1''],
      console = [LoggedException]\<rparr>"
  by (simp add: polling_page_def handler_defs template_def mounted_def first_render_def
        TIMEFRAMES_def)


text \<open>
  What is on the screen: everything, with the chart built from the properties passed, as
  long as the page has not been taken off the screen and its candles are an array; and
  nothing otherwise.
\<close>

lemma render_on_screen:
  assumes "\<not> unmounted w" and "candles w = Some cs"
  shows "\<exists>ss. Chart True s (chart_props rv w) = Inr (Some ss) \<and>
              render rv toString s w
                = Some \<lparr>chart = ss, refresh = refreshButton w, analyze = analyzeButton w,
                        insight_column = insightPanel rv w,
                        news_column = newsPanel toString w\<rparr>"
  using assms by (cases rv) (simp_all add: render_def Chart_def chart_props_def)

lemma render_off_screen:
  assumes "unmounted w \<or> candles w = None"
  shows "render rv toString s w = None"
  using assms by (cases rv) (auto simp: render_def Chart_def chart_props_def)

text \<open>The URL of each request, for the ticker \<^verbatim>\<open>AAPL\<close> and the frame \<^verbatim>\<open>1Y\<close>.\<close>

lemma urls_of_the_requests:
  "url_of (API_BASE Rev1 None) (GET_history AAPL ''1y'' ''1d'')
     = codepoints_of
         ''http://localhost:8000/api/market/history?ticker=AAPL&period=1y&interval=1d'' \<and>
   url_of (API_BASE Rev2 (Some '''')) (GET_news AAPL)
     = codepoints_of ''http://localhost:8000/api/market/news?ticker=AAPL'' \<and>
   url_of (API_BASE Rev2 (Some ''https://api.example.com'')) (POST_analyze AAPL)
     = codepoints_of ''https://api.example.com/api/analyze?ticker=AAPL'' \<and>
   url_of (API_BASE Rev1 (Some ''https://api.example.com'')) (GET_task 0 ''t1'')
     = codepoints_of ''http://localhost:8000/api/analyze/t1''"
  by (simp add: API_BASE_def AAPL_def codepoints_of_def truthy_string_def)

subsection \<open>Poll responses\<close>

text \<open>
  C2. For every poll response whose status is "complete", the client stores
  response.result.draft_report as the displayed report (the empty report when result or
  draft_report is absent) and returns its own status to idle.
\<close>

theorem complete_response_stores_report:
  assumes "h \<in> set (pendingPolls w)" and "task_status task = Some ''complete''"
  shows "status (step rv uni (PollSettled h (PollResolved task)) w) = idle \<and>
         (\<forall>r d. task_result task = Some r \<and> draft_report r = Some d \<longrightarrow>
            report (step rv uni (PollSettled h (PollResolved task)) w) = d) \<and>
         (task_result task = None \<or> (\<exists>r. task_result task = Some r \<and> draft_report r = None) \<longrightarrow>
            report (step rv uni (PollSettled h (PollResolved task)) w) = empty_report)"
proof -
  let ?w = "w\<lparr>pendingPolls := remove1 h (pendingPolls w)\<rparr>"
  from assms(1) have "step rv uni (PollSettled h (PollResolved task)) w
                        = on_error rv h task (on_complete h task ?w)"
    by (simp add: poll_settled_def)
  also from assms(2) have "\<dots> = on_complete h task ?w"
    by (simp add: on_error_def)
  finally have "step rv uni (PollSettled h (PollResolved task)) w = on_complete h task ?w" .
  with assms(2) show ?thesis
    by (auto simp: on_complete_def clearInterval_def)
qed

theorem complete_response_stores_report_witness:
  "0 \<in> set (pendingPolls (polling_page Rev2)) \<and>
   report (step Rev2 caseless
             (PollSettled 0 (PollResolved
                \<lparr>task_status = Some ''complete'',
                 task_result = Some \<lparr>draft_report =
                   Some (empty_report\<lparr>executive_summary := Some ''Uptrend intact'',
                                       confidence := Some ''High''\<rparr>)\<rparr>,
                 task_error = None\<rparr>))
             (polling_page Rev2))
     = empty_report\<lparr>executive_summary := Some ''Uptrend intact'', confidence := Some ''High''\<rparr> \<and>
   report (step Rev1 caseless
             (PollSettled 0 (PollResolved
                \<lparr>task_status = Some ''complete'', task_result = None, task_error = None\<rparr>))
             (polling_page Rev1))
     = empty_report \<and>
   status (step Rev1 caseless
             (PollSettled 0 (PollResolved
                \<lparr>task_status = Some ''complete'', task_result = None, task_error = None\<rparr>))
             (polling_page Rev1))
     = idle \<and>
   report (step Rev2 caseless
             (PollSettled 0 (PollResolved
                \<lparr>task_status = Some ''complete'',
                 task_result = Some \<lparr>draft_report = None\<rparr>, task_error = None\<rparr>))
             (polling_page Rev2))
     = empty_report"
proof -
  let ?d = "empty_report\<lparr>executive_summary := Some ''Uptrend intact'', confidence := Some ''High''\<rparr>"
  let ?full = "\<lparr>task_status = Some ''complete'', task_result = Some \<lparr>draft_report = Some ?d\<rparr>,
                task_error = None\<rparr>"
  let ?bare = "\<lparr>task_status = Some ''complete'', task_result = None, task_error = None\<rparr>"
  have in_flight: "0 \<in> set (pendingPolls (polling_page Rev2))"
    "0 \<in> set (pendingPolls (polling_page Rev1))"
    by (simp_all add: polling_page_eq)
  have complete: "task_status ?full = Some ''complete''" "task_status ?bare = Some ''complete''"
    by simp_all
  from complete_response_stores_report [OF in_flight(1) complete(1), of Rev2 caseless]
  have "report (step Rev2 caseless (PollSettled 0 (PollResolved ?full)) (polling_page Rev2)) = ?d"
    by (simp del: step.simps)
  moreover
  from complete_response_stores_report [OF in_flight(2) complete(2), of Rev1 caseless]
  have "report (step Rev1 caseless (PollSettled 0 (PollResolved ?bare)) (polling_page Rev1))
          = empty_report"
    and "status (step Rev1 caseless (PollSettled 0 (PollResolved ?bare)) (polling_page Rev1))
          = idle"
    by (simp_all del: step.simps)
  moreover
  have "task_status \<lparr>task_status = Some ''complete'',
                       task_result = Some \<lparr>draft_report = None\<rparr>, task_error = None\<rparr>
          = Some ''complete''"
    by simp
  from complete_response_stores_report [OF in_flight(1) this, of Rev2 caseless]
  have "report (step Rev2 caseless
                  (PollSettled 0 (PollResolved
                     \<lparr>task_status = Some ''complete'',
                      task_result = Some \<lparr>draft_report = None\<rparr>, task_error = None\<rparr>))
                  (polling_page Rev2))
          = empty_report"
    by (simp del: step.simps)
  ultimately show ?thesis
    using in_flight(1) by (simp del: step.simps)
qed


text \<open>
  Outside the contract, a response with the status "error" and no cause makes the current
  revision store its own generic message.
\<close>

lemma error_without_cause_stores_generic_message:
  "errorMsg (step Rev2 caseless
               (PollSettled 0 (PollResolved
                  \<lparr>task_status = Some ''error'', task_result = None, task_error = None\<rparr>))
               (polling_page Rev2))
     = ''Agent run failed. Check backend logs or API keys.''"
  by (simp add: polling_page_eq handler_defs)



subsection \<open>Market data\<close>

text \<open>
  The two bodies that abort a load. A history body that is \<^verbatim>\<open>null\<close> stores nothing; a news
  body that is \<^verbatim>\<open>null\<close> lets the history be stored and keeps the news of the load before.
  Either way the exception is logged and the page returns to idle.
\<close>

lemma null_history_body_aborts_the_load:
  assumes "0 < pendingLoads w"
  shows "step rv uni (LoadSettled (LoadResolved None newsBody)) w
           = w\<lparr>pendingLoads := pendingLoads w - 1,
               console := console w @ [LoggedException], status := idle\<rparr>"
  using assms by (simp add: loadMarketData_settled_def)

lemma null_news_body_keeps_the_news:
  assumes "0 < pendingLoads w"
  shows "news (step rv uni (LoadSettled (LoadResolved (Some pricesJson) None)) w) = news w \<and>
         candles (step rv uni (LoadSettled (LoadResolved (Some pricesJson) None)) w)
           = hj_candles pricesJson \<and>
         console (step rv uni (LoadSettled (LoadResolved (Some pricesJson) None)) w)
           = console w @ [LoggedException] \<and>
         status (step rv uni (LoadSettled (LoadResolved (Some pricesJson) None)) w) = idle"
  using assms by (cases rv) (simp_all add: loadMarketData_settled_def store_history_def)




text \<open>
  C7. After every successful market-data load, the dashboard state equals the history
  response fields: candles taken as returned, indicators defaulting to the empty object,
  rsi defaulting to the empty list, and macd defaulting to null whenever the response
  omits them. This is the current revision of \<^verbatim>\<open>loadMarketData\<close>; the earlier one keeps
  the candles only. The history fields are stored whatever the news body is.
\<close>

theorem load_stores_history_fields:
  assumes "0 < pendingLoads w"
  shows "candles (step Rev2 uni (LoadSettled (LoadResolved (Some pricesJson) newsBody)) w)
           = hj_candles pricesJson \<and>
         (\<forall>i. hj_indicators pricesJson = Some i \<longrightarrow>
            indicators (step Rev2 uni (LoadSettled (LoadResolved (Some pricesJson) newsBody)) w)
              = i) \<and>
         (hj_indicators pricesJson = None \<longrightarrow>
            indicators (step Rev2 uni (LoadSettled (LoadResolved (Some pricesJson) newsBody)) w)
              = empty_indicators) \<and>
         (\<forall>r. hj_rsi pricesJson = Some r \<longrightarrow>
            rsiSeries (step Rev2 uni (LoadSettled (LoadResolved (Some pricesJson) newsBody)) w)
              = r) \<and>
         (hj_rsi pricesJson = None \<longrightarrow>
            rsiSeries (step Rev2 uni (LoadSettled (LoadResolved (Some pricesJson) newsBody)) w)
              = []) \<and>
         (\<forall>m. hj_macd pricesJson = Some m \<longrightarrow>
            macdSeries (step Rev2 uni (LoadSettled (LoadResolved (Some pricesJson) newsBody)) w)
              = Some m) \<and>
         (hj_macd pricesJson = None \<longrightarrow>
            macdSeries (step Rev2 uni (LoadSettled (LoadResolved (Some pricesJson) newsBody)) w)
              = None)"
proof -
  let ?w = "w\<lparr>pendingLoads := pendingLoads w - 1\<rparr>"
  from assms have "step Rev2 uni (LoadSettled (LoadResolved (Some pricesJson) newsBody)) w
                     = loadMarketData_settled Rev2 (LoadResolved (Some pricesJson) newsBody) ?w"
    by simp
  then show ?thesis
    by (cases newsBody) (simp_all add: loadMarketData_settled_def store_history_def)
qed

theorem load_stores_history_fields_witness:
  "0 < pendingLoads (mounted Rev2) \<and>
   rsiSeries (step Rev2 caseless
                (LoadSettled (LoadResolved
                   (Some \<lparr>hj_candles = Some [],
                    hj_indicators = Some \<lparr>sma50 = Some [], sma200 = None, ema20 = None\<rparr>,
                    hj_rsi = Some [\<lparr>l_time = ''2024-01-02'', l_value = Fin 55\<rparr>],
                    hj_macd = Some \<lparr>macd = [], signal = [], histogram = []\<rparr>\<rparr>)
                   (Some \<lparr>nj_news = None\<rparr>)))
                (mounted Rev2))
     = [\<lparr>l_time = ''2024-01-02'', l_value = Fin 55\<rparr>] \<and>
   indicators (step Rev2 caseless
                 (LoadSettled (LoadResolved
                    (Some \<lparr>hj_candles = Some [],
                     hj_indicators = Some \<lparr>sma50 = Some [], sma200 = None, ema20 = None\<rparr>,
                     hj_rsi = Some [\<lparr>l_time = ''2024-01-02'', l_value = Fin 55\<rparr>],
                     hj_macd = Some \<lparr>macd = [], signal = [], histogram = []\<rparr>\<rparr>)
                    (Some \<lparr>nj_news = None\<rparr>)))
                 (mounted Rev2))
     = \<lparr>sma50 = Some [], sma200 = None, ema20 = None\<rparr> \<and>
   macdSeries (step Rev2 caseless
                 (LoadSettled (LoadResolved
                    (Some \<lparr>hj_candles = Some [],
                     hj_indicators = Some \<lparr>sma50 = Some [], sma200 = None, ema20 = None\<rparr>,
                     hj_rsi = Some [\<lparr>l_time = ''2024-01-02'', l_value = Fin 55\<rparr>],
                     hj_macd = Some \<lparr>macd = [], signal = [], histogram = []\<rparr>\<rparr>)
                    (Some \<lparr>nj_news = None\<rparr>)))
                 (mounted Rev2))
     = Some \<lparr>macd = [], signal = [], histogram = []\<rparr> \<and>
   indicators (step Rev2 caseless
                 (LoadSettled (LoadResolved
                    (Some \<lparr>hj_candles = None, hj_indicators = None, hj_rsi = None, hj_macd = None\<rparr>)
                    (Some \<lparr>nj_news = None\<rparr>)))
                 (mounted Rev2))
     = empty_indicators \<and>
   rsiSeries (step Rev2 caseless
                (LoadSettled (LoadResolved
                   (Some \<lparr>hj_candles = None, hj_indicators = None, hj_rsi = None, hj_macd = None\<rparr>)
                   (Some \<lparr>nj_news = None\<rparr>)))
                (mounted Rev2))
     = [] \<and>
   macdSeries (step Rev2 caseless
                 (LoadSettled (LoadResolved
                    (Some \<lparr>hj_candles = None, hj_indicators = None, hj_rsi = None, hj_macd = None\<rparr>)
                    (Some \<lparr>nj_news = None\<rparr>)))
                 (mounted Rev2))
     = None \<and>
   candles (step Rev2 caseless
              (LoadSettled (LoadResolved
                 (Some \<lparr>hj_candles = None, hj_indicators = None, hj_rsi = None, hj_macd = None\<rparr>)
                 (Some \<lparr>nj_news = None\<rparr>)))
              (mounted Rev2))
     = None"
proof -
  let ?full = "\<lparr>hj_candles = Some [],
                hj_indicators = Some \<lparr>sma50 = Some [], sma200 = None, ema20 = None\<rparr>,
                hj_rsi = Some [\<lparr>l_time = ''2024-01-02'', l_value = Fin 55\<rparr>],
                hj_macd = Some \<lparr>macd = [], signal = [], histogram = []\<rparr>\<rparr>"
  let ?bare = "\<lparr>hj_candles = None, hj_indicators = None, hj_rsi = None, hj_macd = None\<rparr>"
  have pending: "0 < pendingLoads (mounted Rev2)"
    by (simp add: mounted_def loadMarketData_def first_render_def)
  from load_stores_history_fields
         [OF pending, where uni = caseless and pricesJson = "?full"
            and newsBody = "Some \<lparr>nj_news = None\<rparr>"]
  have 1: "rsiSeries (step Rev2 caseless (LoadSettled (LoadResolved (Some ?full) (Some \<lparr>nj_news = None\<rparr>)))
                        (mounted Rev2))
             = [\<lparr>l_time = ''2024-01-02'', l_value = Fin 55\<rparr>]"
    and 2: "indicators (step Rev2 caseless (LoadSettled (LoadResolved (Some ?full) (Some \<lparr>nj_news = None\<rparr>)))
                          (mounted Rev2))
             = \<lparr>sma50 = Some [], sma200 = None, ema20 = None\<rparr>"
    and 3: "macdSeries (step Rev2 caseless (LoadSettled (LoadResolved (Some ?full) (Some \<lparr>nj_news = None\<rparr>)))
                          (mounted Rev2))
             = Some \<lparr>macd = [], signal = [], histogram = []\<rparr>"
    by (simp_all del: step.simps)
  from load_stores_history_fields
         [OF pending, where uni = caseless and pricesJson = "?bare"
            and newsBody = "Some \<lparr>nj_news = None\<rparr>"]
  have 4: "indicators (step Rev2 caseless (LoadSettled (LoadResolved (Some ?bare) (Some \<lparr>nj_news = None\<rparr>)))
                         (mounted Rev2)) = empty_indicators"
    and 5: "rsiSeries (step Rev2 caseless (LoadSettled (LoadResolved (Some ?bare) (Some \<lparr>nj_news = None\<rparr>)))
                          (mounted Rev2)) = []"
    and 6: "macdSeries (step Rev2 caseless (LoadSettled (LoadResolved (Some ?bare) (Some \<lparr>nj_news = None\<rparr>)))
                          (mounted Rev2)) = None"
    and 7: "candles (step Rev2 caseless (LoadSettled (LoadResolved (Some ?bare) (Some \<lparr>nj_news = None\<rparr>)))
                       (mounted Rev2)) = None"
    by (simp_all del: step.simps)
  from pending 1 2 3 4 5 6 7 show ?thesis
    by (simp del: step.simps)
qed

subsection \<open>The sentiment badge\<close>

lemma decimal_small: "n < 10 \<Longrightarrow> decimal n = [digit n]"
  by (simp add: decimal.simps)

lemma decimal_large: "10 \<le> n \<Longrightarrow> decimal n = decimal (n div 10) @ [digit (n mod 10)]"
  by (subst decimal.simps) simp

lemma decimal_nonempty: "decimal n \<noteq> []"
  by (subst decimal.simps) simp

text \<open>
  Padding to three places and putting the point before the last two digits prints the
  hundreds and above, the point, the tens digit and the units digit.
\<close>

lemma point_before_last_two:
  fixes n :: nat
  defines "m \<equiv> (if length (decimal n) \<le> 2
                  then replicate (3 - length (decimal n)) CHR ''0'' @ decimal n else decimal n)"
  shows "take (length m - 2) m @ ''.'' @ drop (length m - 2) m
           = decimal (n div 100) @ ''.'' @ [digit (n div 10 mod 10), digit (n mod 10)]"
proof -
  consider "n < 10" | "10 \<le> n" "n < 100" | "100 \<le> n"
    by linarith
  then show ?thesis
  proof cases
    case 1
    then have "decimal n = [digit n]" "decimal (n div 100) = ''0''" "n div 10 mod 10 = 0"
      "n mod 10 = n"
      by (simp_all add: decimal_small digit_def)
    then show ?thesis
      by (simp add: m_def digit_def numeral_2_eq_2)
  next
    case 2
    then have "decimal n = [digit (n div 10), digit (n mod 10)]" "decimal (n div 100) = ''0''"
      "n div 10 mod 10 = n div 10"
      by (simp_all add: decimal_large decimal_small digit_def)
    then show ?thesis
      by (simp add: m_def)
  next
    case 3
    then have "10 \<le> n" "10 \<le> n div 10"
      by simp_all
    moreover have "n div 10 div 10 = n div 100"
      by simp
    ultimately have d: "decimal n
                          = decimal (n div 100) @ [digit (n div 10 mod 10), digit (n mod 10)]"
      by (simp add: decimal_large [of n] decimal_large [of "n div 10"])
    have "decimal (n div 100) \<noteq> []"
      by (rule decimal_nonempty)
    then have "0 < length (decimal (n div 100))"
      by simp
    with d show ?thesis
      by (simp add: m_def)
  qed
qed

lemma toFixed2_finite:
  assumes "\<bar>q\<bar> < 10 ^ 21"
  shows "toFixed2 toString (Fin q) =
           (if q < 0 then ''-'' else '''')
           @ decimal (nat \<lfloor>\<bar>q\<bar> * 100 + 1 / 2\<rfloor> div 100) @ ''.''
           @ [digit (nat \<lfloor>\<bar>q\<bar> * 100 + 1 / 2\<rfloor> div 10 mod 10),
              digit (nat \<lfloor>\<bar>q\<bar> * 100 + 1 / 2\<rfloor> mod 10)]"
  using assms point_before_last_two [of "nat \<lfloor>\<bar>q\<bar> * 100 + 1 / 2\<rfloor>"]
  by (simp add: toFixed2_def Let_def)

lemma nearest_hundredth:
  fixes q :: rat
  shows "\<bar>of_nat (nat \<lfloor>\<bar>q\<bar> * 100 + 1 / 2\<rfloor>) / 100 - \<bar>q\<bar>\<bar> \<le> 1 / 200"
proof -
  define a where "a = \<bar>q\<bar>"
  define k where "k = \<lfloor>a * 100 + 1 / 2\<rfloor>"
  have "0 \<le> a"
    by (simp add: a_def)
  then have "0 \<le> k"
    by (simp add: k_def)
  then have n: "(of_nat (nat k) :: rat) = of_int k"
    by simp
  have "of_int k \<le> a * 100 + 1 / 2" and "a * 100 + 1 / 2 < of_int k + 1"
    unfolding k_def by linarith+
  then have "\<bar>of_int k / 100 - a\<bar> \<le> 1 / 200"
    unfolding abs_le_iff by linarith
  with n show ?thesis
    unfolding a_def k_def by simp
qed

text \<open>
  C5 as stated fails on the code: a score that is present and equal to 0 is falsy, so its
  badge reads "Neutral" and not the score formatted to two decimal places, "0.00".
\<close>

theorem zero_score_renders_neutral:
  "score \<lparr>title = ''Fed holds rates'', url = ''https://example.com/fed'',
          excerpt = ''No change.'', score = Some (Fin 0)\<rparr> = Some (Fin 0) \<and>
   sentimentBadge exponent_form
     \<lparr>title = ''Fed holds rates'', url = ''https://example.com/fed'',
      excerpt = ''No change.'', score = Some (Fin 0)\<rparr> = ''Neutral'' \<and>
   toFixed2 exponent_form (Fin 0) = ''0.00''"
  by (simp add: sentimentBadge_def toFixed2_def decimal_small digit_def)

text \<open>
  C5, amended. For every rendered news item, the sentiment badge renders "Neutral" when
  the score is absent or is 0 or \<^verbatim>\<open>NaN\<close>, and renders \<^verbatim>\<open>score.toFixed(2)\<close> for every other
  score; for a finite score other than 0 and below \<open>10\<^sup>2\<^sup>1\<close> in magnitude that is the sign,
  the score rounded to the nearest hundredth, and exactly two digits after the point.
\<close>

theorem sentiment_badge_neutral_or_two_decimals:
  "(score item = None \<longrightarrow> sentimentBadge toString item = ''Neutral'') \<and>
   (score item = Some (Fin 0) \<or> score item = Some NaN \<longrightarrow>
      sentimentBadge toString item = ''Neutral'') \<and>
   (\<forall>x. score item = Some x \<and> truthy_number x \<longrightarrow>
      sentimentBadge toString item = toFixed2 toString x) \<and>
   (\<forall>q. score item = Some (Fin q) \<and> q \<noteq> 0 \<and> \<bar>q\<bar> < 10 ^ 21 \<longrightarrow>
      sentimentBadge toString item =
        (if q < 0 then ''-'' else '''')
        @ decimal (nat \<lfloor>\<bar>q\<bar> * 100 + 1 / 2\<rfloor> div 100) @ ''.''
        @ [digit (nat \<lfloor>\<bar>q\<bar> * 100 + 1 / 2\<rfloor> div 10 mod 10),
           digit (nat \<lfloor>\<bar>q\<bar> * 100 + 1 / 2\<rfloor> mod 10)] \<and>
      \<bar>of_nat (nat \<lfloor>\<bar>q\<bar> * 100 + 1 / 2\<rfloor>) / 100 - \<bar>q\<bar>\<bar> \<le> 1 / 200)"
proof -
  have shown: "sentimentBadge toString item = toFixed2 toString x"
    if "score item = Some x" and "truthy_number x" for x
    using that by (simp add: sentimentBadge_def)
  have neutral: "sentimentBadge toString item = ''Neutral''"
    if "score item = None \<or> score item = Some (Fin 0) \<or> score item = Some NaN"
    using that by (auto simp: sentimentBadge_def)
  have "sentimentBadge toString item =
          (if q < 0 then ''-'' else '''')
          @ decimal (nat \<lfloor>\<bar>q\<bar> * 100 + 1 / 2\<rfloor> div 100) @ ''.''
          @ [digit (nat \<lfloor>\<bar>q\<bar> * 100 + 1 / 2\<rfloor> div 10 mod 10),
             digit (nat \<lfloor>\<bar>q\<bar> * 100 + 1 / 2\<rfloor> mod 10)]"
    if "score item = Some (Fin q)" and "q \<noteq> 0" and "\<bar>q\<bar> < 10 ^ 21" for q
    using that shown [of "Fin q"] toFixed2_finite [of q toString] by simp
  with shown neutral nearest_hundredth show ?thesis
    by blast
qed

theorem sentiment_badge_neutral_or_two_decimals_witness:
  "sentimentBadge exponent_form
     \<lparr>title = ''Chip maker slides'', url = ''https://example.com/chips'',
      excerpt = ''Guidance cut.'', score = Some (Fin (- (37 / 100)))\<rparr> = ''-0.37'' \<and>
   sentimentBadge exponent_form
     \<lparr>title = ''Chip maker slides'', url = ''https://example.com/chips'',
      excerpt = ''Guidance cut.'', score = None\<rparr> = ''Neutral'' \<and>
   sentimentBadge exponent_form
     \<lparr>title = ''Chip maker slides'', url = ''https://example.com/chips'',
      excerpt = ''Guidance cut.'', score = Some NaN\<rparr> = ''Neutral'' \<and>
   sentimentBadge exponent_form
     \<lparr>title = ''Chip maker slides'', url = ''https://example.com/chips'',
      excerpt = ''Guidance cut.'', score = Some PosInf\<rparr> = ''Infinity''"
proof -
  let ?item = "\<lambda>s. \<lparr>title = ''Chip maker slides'', url = ''https://example.com/chips'',
                     excerpt = ''Guidance cut.'', score = s\<rparr>"
  have "\<lfloor>(75 / 2 :: rat)\<rfloor> = 37"
    by (rule floor_unique) simp_all
  then have n: "nat \<lfloor>\<bar>- (37 / 100) :: rat\<bar> * 100 + 1 / 2\<rfloor> = 37"
    by simp
  have "score (?item (Some (Fin (- (37 / 100))))) = Some (Fin (- (37 / 100))) \<and>
        (- (37 / 100) :: rat) \<noteq> 0 \<and> \<bar>- (37 / 100) :: rat\<bar> < 10 ^ 21"
    by simp
  with sentiment_badge_neutral_or_two_decimals
         [of "?item (Some (Fin (- (37 / 100))))" exponent_form]
  have "sentimentBadge exponent_form (?item (Some (Fin (- (37 / 100))))) =
          (if (- (37 / 100) :: rat) < 0 then ''-'' else '''')
          @ decimal (nat \<lfloor>\<bar>- (37 / 100) :: rat\<bar> * 100 + 1 / 2\<rfloor> div 100) @ ''.''
          @ [digit (nat \<lfloor>\<bar>- (37 / 100) :: rat\<bar> * 100 + 1 / 2\<rfloor> div 10 mod 10),
             digit (nat \<lfloor>\<bar>- (37 / 100) :: rat\<bar> * 100 + 1 / 2\<rfloor> mod 10)]"
    by blast
  then have 1: "sentimentBadge exponent_form (?item (Some (Fin (- (37 / 100))))) = ''-0.37''"
    unfolding n by (simp add: decimal_small digit_def)
  from sentiment_badge_neutral_or_two_decimals [of "?item None" exponent_form]
  have 2: "sentimentBadge exponent_form (?item None) = ''Neutral''"
    by simp
  from sentiment_badge_neutral_or_two_decimals [of "?item (Some NaN)" exponent_form]
  have 3: "sentimentBadge exponent_form (?item (Some NaN)) = ''Neutral''"
    by simp
  from sentiment_badge_neutral_or_two_decimals [of "?item (Some PosInf)" exponent_form]
  have "sentimentBadge exponent_form (?item (Some PosInf)) = toFixed2 exponent_form PosInf"
    by simp
  then have 4: "sentimentBadge exponent_form (?item (Some PosInf)) = ''Infinity''"
    by (simp add: toFixed2_def)
  from 1 2 3 4 show ?thesis
    by simp
qed

subsection \<open>The ticker\<close>

lemma upper_mapping_uppercased:
  assumes "upper_stable uni lower"
  shows "uppercased uni lower (upper_mapping uni c)"
proof (cases "c < 128")
  case True
  then show ?thesis
    by (auto simp: upper_mapping_def uppercased_def lowercase_letter_def ascii_lowercase_def)
next
  case False
  with assms show ?thesis
    by (simp add: upper_mapping_def upper_stable_def)
qed

lemma toUpperCase_uppercased:
  assumes "upper_stable uni lower"
  shows "uppercased uni lower (toUpperCase uni v)"
proof -
  have "\<forall>c. list_all (\<lambda>d. lowercase_letter lower d \<longrightarrow> upper_mapping uni d = [d])
              (upper_mapping uni c)"
    using upper_mapping_uppercased [OF assms] by (simp add: uppercased_def)
  then show ?thesis
    by (induction v) (simp_all add: toUpperCase_def uppercased_def)
qed

text \<open>Upper-casing changes each of \<^verbatim>\<open>a\<close> to \<^verbatim>\<open>z\<close>, so an upper-cased text holds none of them.\<close>

lemma uppercased_no_ascii_lowercase:
  assumes "uppercased uni lower t"
  shows "list_all (\<lambda>c. \<not> ascii_lowercase c) t"
proof -
  have "\<not> (lowercase_letter lower c \<longrightarrow> upper_mapping uni c = [c])" if "ascii_lowercase c" for c
    using that by (auto simp: lowercase_letter_def upper_mapping_def ascii_lowercase_def)
  with assms show ?thesis
    unfolding uppercased_def list_all_iff by blast
qed

text \<open>Only typing into the field changes the ticker.\<close>

lemma step_ticker:
  "ticker (step rv uni ev w) = (case ev of TypeTicker v \<Rightarrow> toUpperCase uni v | _ \<Rightarrow> ticker w)"
  by (cases ev)
     (auto simp: handler_defs
        split: option.splits poll_outcome.splits analyze_outcome.splits load_outcome.splits)

lemma run_ticker:
  "ticker (run rv uni evs w) =
     (case last_input evs of None \<Rightarrow> ticker w | Some v \<Rightarrow> toUpperCase uni v)"
proof (induction evs arbitrary: w)
  case Nil
  show ?case by simp
next
  case (Cons ev evs)
  have "ticker (run rv uni (ev # evs) w) =
          (case last_input evs of
             None \<Rightarrow> ticker (step rv uni ev w) | Some v \<Rightarrow> toUpperCase uni v)"
    by (simp add: Cons.IH)
  then show ?case
    by (cases ev) (simp_all add: step_ticker del: step.simps split: option.splits)
qed

lemma step_tickers_upper:
  assumes "upper_stable uni lower" and "tickers_upper uni lower w"
  shows "tickers_upper uni lower (step rv uni ev w)"
  using assms(2) toUpperCase_uppercased [OF assms(1)]
  by (cases ev)
     (auto simp: handler_defs tickers_upper_def
        split: option.splits poll_outcome.splits analyze_outcome.splits load_outcome.splits)

lemma run_tickers_upper:
  assumes "upper_stable uni lower"
  shows "tickers_upper uni lower w \<Longrightarrow> tickers_upper uni lower (run rv uni evs w)"
  by (induction evs arbitrary: w) (simp_all add: step_tickers_upper [OF assms])

lemma mounted_tickers_upper: "tickers_upper uni lower (mounted rv)"
  by (simp add: mounted_def loadMarketData_def first_render_def tickers_upper_def
        uppercased_def AAPL_def lowercase_letter_def ascii_lowercase_def)

lemma ucd_upper_stable: "upper_stable ucd_upper ucd_lower"
  by (auto simp: upper_stable_def uppercased_def ucd_upper_def ucd_lower_def
        lowercase_letter_def ascii_lowercase_def upper_mapping_def)

text \<open>
  The ticker is spliced into the URL as it is. A percent escape typed into the field is
  left alone by \<^verbatim>\<open>toUpperCase\<close> and sent as typed: the query string then reads
  \<^verbatim>\<open>ticker=%61\<close>, which a server decodes to the letter \<^verbatim>\<open>a\<close>.
\<close>

lemma percent_escape_is_sent_as_typed:
  "last (sent (run Rev2 ucd_upper
                 [LoadSettled LoadRejected, TypeTicker (codepoints_of ''%61''), ClickRefresh]
                 (mounted Rev2))) = GET_news (codepoints_of ''%61'') \<and>
   url_of (API_BASE Rev2 None) (GET_news (codepoints_of ''%61''))
     = codepoints_of ''http://localhost:8000/api/market/news?ticker=%61''"
  by (simp add: handler_defs mounted_def first_render_def toUpperCase_def upper_mapping_def
        ascii_lowercase_def codepoints_of_def API_BASE_def)

text \<open>
  C8 as stated fails on the code. U+0138, the letter kra, is a lowercase letter without an
  upper-case mapping, so \<^verbatim>\<open>toUpperCase\<close> leaves it alone: typed into the ticker field it is
  the ticker of the state, and the next request carries it after \<^verbatim>\<open>ticker=\<close>.
\<close>

theorem lowercase_kra_is_sent:
  "lowercase_letter ucd_lower 312 \<and>
   ticker (run Rev2 ucd_upper [LoadSettled LoadRejected, TypeTicker [312], ClickRefresh]
             (mounted Rev2)) = [312] \<and>
   GET_news [312]
     \<in> set (sent (run Rev2 ucd_upper [LoadSettled LoadRejected, TypeTicker [312], ClickRefresh]
                    (mounted Rev2))) \<and>
   spliced_ticker (GET_news [312]) = Some [312] \<and>
   \<not> no_lowercase ucd_lower [312] \<and>
   url_of (API_BASE Rev2 None) (GET_news [312])
     = codepoints_of ''http://localhost:8000/api/market/news?ticker='' @ [312]"
  by (simp add: handler_defs mounted_def first_render_def toUpperCase_def upper_mapping_def
        ucd_upper_def ucd_lower_def lowercase_letter_def no_lowercase_def API_BASE_def
        codepoints_of_def)

text \<open>
  C8, amended. Invariant: the ticker held in the dashboard state is always \<^verbatim>\<open>toUpperCase\<close>
  of the last value typed into the field (the initial \<^verbatim>\<open>AAPL\<close> before any typing), and
  every request to \<^verbatim>\<open>/api/market/history\<close>, \<^verbatim>\<open>/api/market/news\<close> and \<^verbatim>\<open>/api/analyze\<close> splices
  the ticker after \<^verbatim>\<open>ticker=\<close> as it then is, without encoding it. That text holds none of
  the letters \<^verbatim>\<open>a\<close> to \<^verbatim>\<open>z\<close>, and every other lowercase letter in it is one that upper-casing
  leaves alone. The one assumption is on the Unicode tables: the upper-case mapping of a
  code point beyond ASCII holds no lowercase letter that upper-casing would change again.
\<close>

theorem ticker_is_upper_cased_in_every_request:
  assumes "upper_stable uni lower"
  shows "ticker (run rv uni evs (mounted rv))
           = (case last_input evs of None \<Rightarrow> AAPL | Some v \<Rightarrow> toUpperCase uni v) \<and>
         uppercased uni lower (ticker (run rv uni evs (mounted rv))) \<and>
         list_all (\<lambda>c. \<not> ascii_lowercase c) (ticker (run rv uni evs (mounted rv))) \<and>
         (\<forall>r \<in> set (sent (run rv uni evs (mounted rv))). \<forall>t.
            spliced_ticker r = Some t \<longrightarrow>
            uppercased uni lower t \<and> list_all (\<lambda>c. \<not> ascii_lowercase c) t) \<and>
         (\<forall>ev. sent (step rv uni ev (run rv uni evs (mounted rv)))
                 = sent (run rv uni evs (mounted rv)) \<or>
               (\<exists>r. sent (step rv uni ev (run rv uni evs (mounted rv)))
                       = sent (run rv uni evs (mounted rv)) @ [r] \<and>
                     spliced_ticker r = None) \<or>
               (\<exists>rs. sent (step rv uni ev (run rv uni evs (mounted rv)))
                        = sent (run rv uni evs (mounted rv)) @ rs \<and> rs \<noteq> [] \<and>
                      list_all (\<lambda>r. spliced_ticker r
                                      = Some (ticker (run rv uni evs (mounted rv)))) rs))"
proof -
  let ?w = "run rv uni evs (mounted rv)"
  have inv: "tickers_upper uni lower ?w"
    using run_tickers_upper [OF assms mounted_tickers_upper] .
  have start: "ticker (mounted rv) = AAPL"
    by (simp add: mounted_def loadMarketData_def first_render_def)
  have 1: "ticker ?w = (case last_input evs of None \<Rightarrow> AAPL | Some v \<Rightarrow> toUpperCase uni v)"
    by (simp add: run_ticker start split: option.splits)
  from inv have 2: "uppercased uni lower (ticker ?w)"
    by (simp add: tickers_upper_def)
  have 4: "\<forall>r \<in> set (sent ?w). \<forall>t.
            spliced_ticker r = Some t \<longrightarrow>
            uppercased uni lower t \<and> list_all (\<lambda>c. \<not> ascii_lowercase c) t"
    using inv uppercased_no_ascii_lowercase [of uni lower]
    by (auto simp: tickers_upper_def list_all_iff split: option.splits)
  have 5: "sent (step rv uni ev ?w) = sent ?w \<or>
           (\<exists>r. sent (step rv uni ev ?w) = sent ?w @ [r] \<and> spliced_ticker r = None) \<or>
           (\<exists>rs. sent (step rv uni ev ?w) = sent ?w @ rs \<and> rs \<noteq> [] \<and>
                  list_all (\<lambda>r. spliced_ticker r = Some (ticker ?w)) rs)" for ev
    by (cases ev)
       (auto simp: handler_defs
          split: option.splits poll_outcome.splits analyze_outcome.splits load_outcome.splits)
  from 1 2 uppercased_no_ascii_lowercase [OF 2] 4 5 show ?thesis
    by blast
qed

theorem ticker_is_upper_cased_in_every_request_witness:
  "upper_stable ucd_upper ucd_lower \<and>
   ticker (run Rev2 ucd_upper
             [LoadSettled LoadRejected, TypeTicker [109, 233, 223, 312], ClickRefresh]
             (mounted Rev2)) = [77, 201, 83, 83, 312] \<and>
   GET_news [77, 201, 83, 83, 312]
     \<in> set (sent (run Rev2 ucd_upper
                    [LoadSettled LoadRejected, TypeTicker [109, 233, 223, 312], ClickRefresh]
                    (mounted Rev2))) \<and>
   spliced_ticker (GET_news [77, 201, 83, 83, 312]) = Some [77, 201, 83, 83, 312] \<and>
   uppercased ucd_upper ucd_lower [77, 201, 83, 83, 312] \<and>
   list_all (\<lambda>c. \<not> ascii_lowercase c) [77, 201, 83, 83, 312]"
proof -
  let ?evs = "[LoadSettled LoadRejected, TypeTicker [109, 233, 223, 312], ClickRefresh]"
  let ?t = "[77, 201, 83, 83, 312] :: codepoints"
  have sent: "GET_news ?t \<in> set (sent (run Rev2 ucd_upper ?evs (mounted Rev2)))"
    by (simp add: handler_defs mounted_def first_render_def toUpperCase_def upper_mapping_def
          ascii_lowercase_def ucd_upper_def)
  have spliced: "spliced_ticker (GET_news ?t) = Some ?t"
    by simp
  from ticker_is_upper_cased_in_every_request [OF ucd_upper_stable, of Rev2 ?evs]
  have t: "ticker (run Rev2 ucd_upper ?evs (mounted Rev2))
             = toUpperCase ucd_upper [109, 233, 223, 312]"
    and all: "\<forall>r \<in> set (sent (run Rev2 ucd_upper ?evs (mounted Rev2))). \<forall>t.
                spliced_ticker r = Some t \<longrightarrow>
                uppercased ucd_upper ucd_lower t \<and> list_all (\<lambda>c. \<not> ascii_lowercase c) t"
    by simp_all
  from all sent spliced
  have "uppercased ucd_upper ucd_lower ?t \<and> list_all (\<lambda>c. \<not> ascii_lowercase c) ?t"
    by blast
  moreover from t have "ticker (run Rev2 ucd_upper ?evs (mounted Rev2)) = ?t"
    by (simp add: toUpperCase_def upper_mapping_def ascii_lowercase_def ucd_upper_def)
  ultimately show ?thesis
    using sent spliced ucd_upper_stable by (simp del: run.simps)
qed

subsection \<open>Polling\<close>

lemma find_handle:
  "p \<in> set ps \<Longrightarrow> distinct (map handle ps) \<Longrightarrow> find (\<lambda>q. handle q = handle p) ps = Some p"
  by (induction ps) (auto simp: image_iff)

lemma find_handle_active:
  "find (\<lambda>q. handle q = h) ps = Some p \<Longrightarrow> p \<in> set ps \<and> handle p = h"
  by (induction ps) (auto split: if_splits)

lemma step_handles_fresh:
  assumes "handles_fresh w"
  shows "handles_fresh (step rv uni ev w)"
proof (cases ev)
  case (TimerFire h)
  show ?thesis
  proof (cases "find (\<lambda>p. handle p = h) (intervals w)")
    case None
    with TimerFire assms show ?thesis by simp
  next
    case (Some p)
    from find_handle_active [OF Some] assms have "handle p < nextHandle w"
      by (auto simp: handles_fresh_def list_all_iff)
    with TimerFire Some assms show ?thesis
      by (simp add: poll_fired_def handles_fresh_def)
  qed
next
  case (PollSettled h outcome)
  have "list_all (\<lambda>h. h < nextHandle w) (remove1 h (pendingPolls w))"
    using assms by (auto simp: handles_fresh_def list_all_iff dest: notin_set_remove1)
  with PollSettled assms show ?thesis
    by (auto simp: handler_defs handles_fresh_def list_all_iff distinct_map_filter
          split: poll_outcome.splits)
next
  case (AnalyzeSettled outcome)
  with assms show ?thesis
    by (fastforce simp: handler_defs handles_fresh_def list_all_iff
          split: analyze_outcome.splits option.splits)
qed (use assms in \<open>auto simp: handler_defs handles_fresh_def split: load_outcome.splits option.splits\<close>)

lemma run_handles_fresh:
  "handles_fresh w \<Longrightarrow> handles_fresh (run rv uni evs w)"
  by (induction evs arbitrary: w) (simp_all add: step_handles_fresh)

lemma mounted_handles_fresh: "handles_fresh (mounted rv)"
  by (simp add: mounted_def loadMarketData_def first_render_def handles_fresh_def)

text \<open>An interval that has been cleared never runs again and sends nothing more.\<close>

lemma step_cleared:
  assumes "h \<notin> handle ` set (intervals w)" and "h < nextHandle w"
  shows "h \<notin> handle ` set (intervals (step rv uni ev w)) \<and>
         h < nextHandle (step rv uni ev w) \<and>
         filter (polled_by h) (sent (step rv uni ev w)) = filter (polled_by h) (sent w)"
proof (cases ev)
  case (TimerFire h')
  show ?thesis
  proof (cases "find (\<lambda>p. handle p = h') (intervals w)")
    case None
    with TimerFire assms show ?thesis by simp
  next
    case (Some p)
    from find_handle_active [OF Some] assms have "handle p \<noteq> h"
      by auto
    with TimerFire Some assms show ?thesis
      by (simp add: poll_fired_def)
  qed
qed (use assms in \<open>auto simp: handler_defs
        split: load_outcome.splits poll_outcome.splits analyze_outcome.splits option.splits\<close>)

lemma run_cleared:
  "h \<notin> handle ` set (intervals w) \<Longrightarrow> h < nextHandle w \<Longrightarrow>
     filter (polled_by h) (sent (run rv uni evs w)) = filter (polled_by h) (sent w)"
proof (induction evs arbitrary: w)
  case Nil
  show ?case by simp
next
  case (Cons ev evs)
  from step_cleared [OF Cons.prems, of rv uni ev]
  have a: "h \<notin> handle ` set (intervals (step rv uni ev w))" "h < nextHandle (step rv uni ev w)"
    and b: "filter (polled_by h) (sent (step rv uni ev w)) = filter (polled_by h) (sent w)"
    by simp_all
  from Cons.IH [OF a] b show ?case
    by simp
qed

lemma terminal_response_clears:
  assumes "h \<in> set (pendingPolls w)" and "terminal_status task"
  shows "h \<notin> handle ` set (intervals (step rv uni (PollSettled h (PollResolved task)) w)) \<and>
         nextHandle (step rv uni (PollSettled h (PollResolved task)) w) = nextHandle w \<and>
         sent (step rv uni (PollSettled h (PollResolved task)) w) = sent w"
  using assms
  by (auto simp: handler_defs terminal_status_def)

lemma interval_kept:
  assumes "p \<in> set (intervals w)"
    and "\<not> (\<exists>task. ev = PollSettled (handle p) (PollResolved task) \<and> terminal_status task)"
  shows "p \<in> set (intervals (step rv uni ev w))"
  using assms
  by (cases ev)
     (auto simp: handler_defs terminal_status_def
        split: load_outcome.splits poll_outcome.splits analyze_outcome.splits option.splits)

lemma submission_starts_interval:
  assumes "0 < pendingAnalyze w" and "\<not> analyze_request_failed rv (AnalyzeResponse ok (Some b))"
  shows "intervals (step rv uni (AnalyzeSettled (AnalyzeResponse ok (Some b))) w)
           = intervals w @ [\<lparr>handle = nextHandle w, taskId = task_id b, delay = 1500\<rparr>]"
  using assms by (auto simp: handler_defs)


lemma terminal_response_intervals:
  assumes "h \<in> set (pendingPolls w)" and "terminal_status task"
  shows "intervals (step rv uni (PollSettled h (PollResolved task)) w)
           = filter (\<lambda>q. handle q \<noteq> h) (intervals w)"
  using assms
  by (auto simp: handler_defs terminal_status_def)

text \<open>
  While no running interval polls the task \<open>t\<close> and no answer to a submission names it,
  no poll for \<open>t\<close> is sent.
\<close>

lemma step_task_silent:
  assumes "\<forall>p \<in> set (intervals w). \<not> polls_task t p" and "\<not> names_task rv t ev"
  shows "(\<forall>p \<in> set (intervals (step rv uni ev w)). \<not> polls_task t p) \<and>
         filter (poll_for t) (sent (step rv uni ev w)) = filter (poll_for t) (sent w)"
proof (cases ev)
  case (TimerFire h)
  show ?thesis
  proof (cases "find (\<lambda>p. handle p = h) (intervals w)")
    case None
    with TimerFire assms show ?thesis by simp
  next
    case (Some p)
    from find_handle_active [OF Some] assms(1) have "\<not> polls_task t p"
      by blast
    with TimerFire Some assms(1) show ?thesis
      by (simp add: poll_fired_def polls_task_def)
  qed
next
  case (AnalyzeSettled outcome)
  with assms show ?thesis
    by (cases outcome; cases rv)
       (auto simp: handler_defs polls_task_def split: option.splits)
qed (use assms(1) in \<open>auto simp: handler_defs
        split: load_outcome.splits poll_outcome.splits option.splits\<close>)

lemma run_task_silent:
  "\<forall>p \<in> set (intervals w). \<not> polls_task t p \<Longrightarrow> \<forall>ev \<in> set evs. \<not> names_task rv t ev \<Longrightarrow>
     filter (poll_for t) (sent (run rv uni evs w)) = filter (poll_for t) (sent w)"
proof (induction evs arbitrary: w)
  case Nil
  show ?case by simp
next
  case (Cons ev evs)
  from Cons.prems have "\<not> names_task rv t ev" and rest: "\<forall>ev \<in> set evs. \<not> names_task rv t ev"
    by simp_all
  from step_task_silent [OF Cons.prems(1) this(1), of uni]
  have a: "\<forall>p \<in> set (intervals (step rv uni ev w)). \<not> polls_task t p"
    and b: "filter (poll_for t) (sent (step rv uni ev w)) = filter (poll_for t) (sent w)"
    by simp_all
  from Cons.IH [OF a rest] b show ?case
    by simp
qed

text \<open>The task id is polled as the template literal prints it, also when it is missing.\<close>

lemma missing_task_id_is_polled_by_name:
  "sent (run Rev2 caseless
           [LoadSettled LoadRejected, ClickAnalyze,
            AnalyzeSettled (AnalyzeResponse True (Some \<lparr>task_id = Null\<rparr>)),
            TimerFire 0]
           (mounted Rev2))
     = [GET_history AAPL ''1y'' ''1d'', GET_news AAPL, POST_analyze AAPL,
        GET_task 0 ''null''] \<and>
   sent (run Rev1 caseless
           [LoadSettled LoadRejected, ClickAnalyze,
            AnalyzeSettled (AnalyzeResponse False (Some \<lparr>task_id = Undefined\<rparr>)),
            TimerFire 0]
           (mounted Rev1))
     = [GET_history AAPL ''1y'' ''1d'', GET_news AAPL, POST_analyze AAPL,
        GET_task 0 ''undefined''] \<and>
   url_of (API_BASE Rev1 None) (GET_task 0 ''undefined'')
     = codepoints_of ''http://localhost:8000/api/analyze/undefined''"
  by (simp add: handler_defs template_def mounted_def first_render_def TIMEFRAMES_def
        API_BASE_def)

text \<open>
  C1. For every submitted task, the polling client issues \<^verbatim>\<open>GET /api/analyze/{task_id}\<close> at
  a fixed 1.5-second interval, continues polling while the returned status is
  non-terminal ("pending" or "running"), and once it observes a terminal status
  ("complete" or "error") it performs no further poll for that task.

  The timer itself belongs to the browser: the model records the delay an interval was
  created with, which is the second argument of \<^verbatim>\<open>setInterval\<close>, and takes each firing as
  an event; time is not measured. For every state \<open>w\<close> the mounted page can reach:
  \<^item> a successful answer to the \<^verbatim>\<open>POST\<close> creates one interval for the task it names, with a
    fresh handle;
  \<^item> every running interval has the delay 1500, each firing of it sends one poll, to the
    path that ends in the task id as the template literal prints it, and it keeps
    running through every event except a poll response of its own with a terminal
    status, in particular through responses with any other status;
  \<^item> after a poll response with a terminal status, no later event makes the callback of
    that interval send a poll again;
  \<^item> and no poll at all is sent for its task any more, provided that no other interval is
    running for the same task and no answer to a later submission that the page accepts
    names that task again.
\<close>

theorem polls_every_1500ms_until_terminal_status:
  "(\<forall>ok b. 0 < pendingAnalyze (run rv uni evs (mounted rv)) \<and>
       \<not> analyze_request_failed rv (AnalyzeResponse ok (Some b)) \<longrightarrow>
       intervals (step rv uni (AnalyzeSettled (AnalyzeResponse ok (Some b)))
                    (run rv uni evs (mounted rv)))
         = intervals (run rv uni evs (mounted rv))
           @ [\<lparr>handle = nextHandle (run rv uni evs (mounted rv)), taskId = task_id b,
               delay = 1500\<rparr>]) \<and>
   (\<forall>p \<in> set (intervals (run rv uni evs (mounted rv))).
       delay p = 1500 \<and>
       sent (step rv uni (TimerFire (handle p)) (run rv uni evs (mounted rv)))
         = sent (run rv uni evs (mounted rv)) @ [GET_task (handle p) (template (taskId p))] \<and>
       (\<forall>ev. \<not> (\<exists>task. ev = PollSettled (handle p) (PollResolved task) \<and> terminal_status task)
          \<longrightarrow> p \<in> set (intervals (step rv uni ev (run rv uni evs (mounted rv)))))) \<and>
   (\<forall>h task later.
       h \<in> set (pendingPolls (run rv uni evs (mounted rv))) \<and> terminal_status task \<longrightarrow>
       filter (polled_by h)
         (sent (run rv uni later
                  (step rv uni (PollSettled h (PollResolved task))
                     (run rv uni evs (mounted rv)))))
         = filter (polled_by h) (sent (run rv uni evs (mounted rv)))) \<and>
   (\<forall>p task later.
       p \<in> set (intervals (run rv uni evs (mounted rv))) \<and>
       handle p \<in> set (pendingPolls (run rv uni evs (mounted rv))) \<and>
       terminal_status task \<and>
       (\<forall>q \<in> set (intervals (run rv uni evs (mounted rv))).
          q \<noteq> p \<longrightarrow> \<not> polls_task (template (taskId p)) q) \<and>
       (\<forall>ev \<in> set later. \<not> names_task rv (template (taskId p)) ev) \<longrightarrow>
       filter (poll_for (template (taskId p)))
         (sent (run rv uni later
                  (step rv uni (PollSettled (handle p) (PollResolved task))
                     (run rv uni evs (mounted rv)))))
         = filter (poll_for (template (taskId p))) (sent (run rv uni evs (mounted rv))))"
proof -
  let ?w = "run rv uni evs (mounted rv)"
  have fresh: "handles_fresh ?w"
    by (rule run_handles_fresh [OF mounted_handles_fresh])
  have 1: "\<forall>ok b. 0 < pendingAnalyze ?w \<and>
       \<not> analyze_request_failed rv (AnalyzeResponse ok (Some b)) \<longrightarrow>
       intervals (step rv uni (AnalyzeSettled (AnalyzeResponse ok (Some b))) ?w)
         = intervals ?w @ [\<lparr>handle = nextHandle ?w, taskId = task_id b, delay = 1500\<rparr>]"
    using submission_starts_interval by blast
  have 2: "\<forall>p \<in> set (intervals ?w).
       delay p = 1500 \<and>
       sent (step rv uni (TimerFire (handle p)) ?w)
         = sent ?w @ [GET_task (handle p) (template (taskId p))] \<and>
       (\<forall>ev. \<not> (\<exists>task. ev = PollSettled (handle p) (PollResolved task) \<and> terminal_status task)
          \<longrightarrow> p \<in> set (intervals (step rv uni ev ?w)))"
  proof
    fix p assume p: "p \<in> set (intervals ?w)"
    with fresh have "delay p = 1500" and d: "distinct (map handle (intervals ?w))"
      by (auto simp: handles_fresh_def list_all_iff)
    moreover from find_handle [OF p d]
    have "sent (step rv uni (TimerFire (handle p)) ?w)
         = sent ?w @ [GET_task (handle p) (template (taskId p))]"
      by (simp add: poll_fired_def)
    moreover have "\<forall>ev. \<not> (\<exists>task. ev = PollSettled (handle p) (PollResolved task) \<and>
                               terminal_status task)
          \<longrightarrow> p \<in> set (intervals (step rv uni ev ?w))"
      using interval_kept [OF p] by blast
    ultimately show "delay p = 1500 \<and>
       sent (step rv uni (TimerFire (handle p)) ?w)
         = sent ?w @ [GET_task (handle p) (template (taskId p))] \<and>
       (\<forall>ev. \<not> (\<exists>task. ev = PollSettled (handle p) (PollResolved task) \<and> terminal_status task)
          \<longrightarrow> p \<in> set (intervals (step rv uni ev ?w)))"
      by blast
  qed
  have 3: "\<forall>h task later.
       h \<in> set (pendingPolls ?w) \<and> terminal_status task \<longrightarrow>
       filter (polled_by h)
         (sent (run rv uni later (step rv uni (PollSettled h (PollResolved task)) ?w)))
         = filter (polled_by h) (sent ?w)"
  proof (intro allI impI)
    fix h task later
    assume a: "h \<in> set (pendingPolls ?w) \<and> terminal_status task"
    then have "h < nextHandle ?w"
      using fresh by (auto simp: handles_fresh_def list_all_iff)
    with terminal_response_clears [of h ?w task rv uni] a
    have c: "h \<notin> handle ` set (intervals (step rv uni (PollSettled h (PollResolved task)) ?w))"
      "h < nextHandle (step rv uni (PollSettled h (PollResolved task)) ?w)"
      and s: "sent (step rv uni (PollSettled h (PollResolved task)) ?w) = sent ?w"
      by simp_all
    from run_cleared [OF c] s
    show "filter (polled_by h)
         (sent (run rv uni later (step rv uni (PollSettled h (PollResolved task)) ?w)))
         = filter (polled_by h) (sent ?w)"
      by simp
  qed
  have 4: "\<forall>p task later.
       p \<in> set (intervals ?w) \<and> handle p \<in> set (pendingPolls ?w) \<and> terminal_status task \<and>
       (\<forall>q \<in> set (intervals ?w). q \<noteq> p \<longrightarrow> \<not> polls_task (template (taskId p)) q) \<and>
       (\<forall>ev \<in> set later. \<not> names_task rv (template (taskId p)) ev) \<longrightarrow>
       filter (poll_for (template (taskId p)))
         (sent (run rv uni later (step rv uni (PollSettled (handle p) (PollResolved task)) ?w)))
         = filter (poll_for (template (taskId p))) (sent ?w)"
  proof (intro allI impI)
    fix p :: poller and task later
    let ?after = "step rv uni (PollSettled (handle p) (PollResolved task)) ?w"
    assume a: "p \<in> set (intervals ?w) \<and> handle p \<in> set (pendingPolls ?w) \<and>
       terminal_status task \<and>
       (\<forall>q \<in> set (intervals ?w). q \<noteq> p \<longrightarrow> \<not> polls_task (template (taskId p)) q) \<and>
       (\<forall>ev \<in> set later. \<not> names_task rv (template (taskId p)) ev)"
    then have left: "intervals ?after = filter (\<lambda>q. handle q \<noteq> handle p) (intervals ?w)"
      and s: "sent ?after = sent ?w"
      using terminal_response_intervals [of "handle p" ?w task rv uni]
        terminal_response_clears [of "handle p" ?w task rv uni]
      by simp_all
    from left a have quiet: "\<forall>q \<in> set (intervals ?after). \<not> polls_task (template (taskId p)) q"
      by auto
    from a have unnamed: "\<forall>ev \<in> set later. \<not> names_task rv (template (taskId p)) ev"
      by blast
    from run_task_silent [OF quiet unnamed, of uni] s
    show "filter (poll_for (template (taskId p))) (sent (run rv uni later ?after))
            = filter (poll_for (template (taskId p))) (sent ?w)"
      by simp
  qed
  from 1 2 3 4 show ?thesis
    by blast
qed

theorem polls_every_1500ms_until_terminal_status_witness:
  "0 < pendingAnalyze (run Rev2 caseless [LoadSettled LoadRejected, ClickAnalyze] (mounted Rev2)) \<and>
   intervals (step Rev2 caseless
                (AnalyzeSettled (AnalyzeResponse True (Some \<lparr>task_id = Text ''t1''\<rparr>)))
                (run Rev2 caseless [LoadSettled LoadRejected, ClickAnalyze] (mounted Rev2)))
     = [\<lparr>handle = 0, taskId = Text ''t1'', delay = 1500\<rparr>] \<and>
   \<lparr>handle = 0, taskId = Text ''t1'', delay = 1500\<rparr> \<in> set (intervals (polling_page Rev2)) \<and>
   sent (step Rev2 caseless (TimerFire 0) (polling_page Rev2))
     = sent (polling_page Rev2) @ [GET_task 0 ''t1''] \<and>
   \<lparr>handle = 0, taskId = Text ''t1'', delay = 1500\<rparr>
     \<in> set (intervals
              (step Rev2 caseless
                 (PollSettled 0 (PollResolved
                    \<lparr>task_status = Some ''running'', task_result = None, task_error = None\<rparr>))
                 (polling_page Rev2))) \<and>
   0 \<in> set (pendingPolls (polling_page Rev2)) \<and>
   terminal_status \<lparr>task_status = Some ''complete'', task_result = None, task_error = None\<rparr> \<and>
   filter (polled_by 0)
     (sent (run Rev2 caseless [TimerFire 0, ClickRefresh, TimerFire 0]
              (step Rev2 caseless
                 (PollSettled 0 (PollResolved
                    \<lparr>task_status = Some ''complete'', task_result = None, task_error = None\<rparr>))
                 (polling_page Rev2))))
     = [GET_task 0 ''t1''] \<and>
   filter (poll_for ''t1'')
     (sent (run Rev2 caseless
              [TimerFire 0, ClickAnalyze,
               AnalyzeSettled (AnalyzeResponse True (Some \<lparr>task_id = Text ''t2''\<rparr>)),
               TimerFire 1]
              (step Rev2 caseless
                 (PollSettled 0 (PollResolved
                    \<lparr>task_status = Some ''complete'', task_result = None, task_error = None\<rparr>))
                 (polling_page Rev2))))
     = [GET_task 0 ''t1'']"
proof -
  let ?p = "\<lparr>handle = 0, taskId = Text ''t1'', delay = 1500\<rparr>"
  let ?running = "\<lparr>task_status = Some ''running'', task_result = None, task_error = None\<rparr>"
  let ?complete = "\<lparr>task_status = Some ''complete'', task_result = None, task_error = None\<rparr>"
  let ?submitted = "run Rev2 caseless [LoadSettled LoadRejected, ClickAnalyze] (mounted Rev2)"
  let ?again = "[TimerFire 0, ClickAnalyze,
                 AnalyzeSettled (AnalyzeResponse True (Some \<lparr>task_id = Text ''t2''\<rparr>)),
                 TimerFire 1]"
  have waiting: "0 < pendingAnalyze ?submitted"
    and no_interval: "intervals ?submitted = []" "nextHandle ?submitted = 0"
    by (simp_all add: handler_defs mounted_def first_render_def)
  from polls_every_1500ms_until_terminal_status
         [of Rev2 caseless "[LoadSettled LoadRejected, ClickAnalyze]"]
  have "0 < pendingAnalyze ?submitted \<and>
        \<not> analyze_request_failed Rev2 (AnalyzeResponse True (Some \<lparr>task_id = Text ''t1''\<rparr>)) \<longrightarrow>
        intervals (step Rev2 caseless
                     (AnalyzeSettled (AnalyzeResponse True (Some \<lparr>task_id = Text ''t1''\<rparr>)))
                     ?submitted)
          = intervals ?submitted
            @ [\<lparr>handle = nextHandle ?submitted, taskId = task_id \<lparr>task_id = Text ''t1''\<rparr>,
                delay = 1500\<rparr>]"
    by blast
  with waiting no_interval
  have 1: "intervals (step Rev2 caseless
                        (AnalyzeSettled (AnalyzeResponse True (Some \<lparr>task_id = Text ''t1''\<rparr>)))
                        ?submitted) = [?p]"
    by (simp del: step.simps run.simps)
  have running: "?p \<in> set (intervals (polling_page Rev2))"
    and alone: "\<forall>q \<in> set (intervals (polling_page Rev2)).
                  q \<noteq> ?p \<longrightarrow> \<not> polls_task (template (taskId ?p)) q"
    and in_flight: "0 \<in> set (pendingPolls (polling_page Rev2))"
    and sent: "sent (polling_page Rev2)
                 = [GET_history AAPL ''1y'' ''1d'', GET_news AAPL, POST_analyze AAPL,
                    GET_task 0 ''t1'']"
    by (simp_all add: polling_page_eq)
  have terminal: "terminal_status ?complete" and going: "\<not> terminal_status ?running"
    by (simp_all add: terminal_status_def)
  have unnamed: "\<forall>ev \<in> set ?again. \<not> names_task Rev2 (template (taskId ?p)) ev"
    by (simp add: template_def)
  note page = polls_every_1500ms_until_terminal_status
                [of Rev2 caseless
                    "[LoadSettled LoadRejected, ClickAnalyze,
                      AnalyzeSettled (AnalyzeResponse True (Some \<lparr>task_id = Text ''t1''\<rparr>)),
                      TimerFire 0]",
                 folded polling_page_def]
  from page running
  have fire: "sent (step Rev2 caseless (TimerFire (handle ?p)) (polling_page Rev2))
                = sent (polling_page Rev2) @ [GET_task (handle ?p) (template (taskId ?p))]"
    and kept: "\<forall>ev. \<not> (\<exists>task. ev = PollSettled (handle ?p) (PollResolved task) \<and>
                              terminal_status task)
                 \<longrightarrow> ?p \<in> set (intervals (step Rev2 caseless ev (polling_page Rev2)))"
    by blast+
  from fire have 2: "sent (step Rev2 caseless (TimerFire 0) (polling_page Rev2))
                       = sent (polling_page Rev2) @ [GET_task 0 ''t1'']"
    by (simp add: template_def del: step.simps)
  from kept going
  have 3: "?p \<in> set (intervals
                        (step Rev2 caseless (PollSettled 0 (PollResolved ?running))
                           (polling_page Rev2)))"
    by (auto simp del: step.simps)
  from page in_flight terminal
  have "filter (polled_by 0)
          (sent (run Rev2 caseless [TimerFire 0, ClickRefresh, TimerFire 0]
                   (step Rev2 caseless (PollSettled 0 (PollResolved ?complete))
                      (polling_page Rev2))))
          = filter (polled_by 0) (sent (polling_page Rev2))"
    by blast
  with sent
  have 4: "filter (polled_by 0)
             (sent (run Rev2 caseless [TimerFire 0, ClickRefresh, TimerFire 0]
                      (step Rev2 caseless (PollSettled 0 (PollResolved ?complete))
                         (polling_page Rev2))))
             = [GET_task 0 ''t1'']"
    by (simp del: step.simps run.simps)
  from page
  have "?p \<in> set (intervals (polling_page Rev2)) \<and>
        handle ?p \<in> set (pendingPolls (polling_page Rev2)) \<and>
        terminal_status ?complete \<and>
        (\<forall>q \<in> set (intervals (polling_page Rev2)).
           q \<noteq> ?p \<longrightarrow> \<not> polls_task (template (taskId ?p)) q) \<and>
        (\<forall>ev \<in> set ?again. \<not> names_task Rev2 (template (taskId ?p)) ev) \<longrightarrow>
        filter (poll_for (template (taskId ?p)))
          (sent (run Rev2 caseless ?again
                   (step Rev2 caseless (PollSettled (handle ?p) (PollResolved ?complete))
                      (polling_page Rev2))))
          = filter (poll_for (template (taskId ?p))) (sent (polling_page Rev2))"
    by blast
  with running in_flight terminal alone unnamed
  have "filter (poll_for (template (taskId ?p)))
          (sent (run Rev2 caseless ?again
                   (step Rev2 caseless (PollSettled (handle ?p) (PollResolved ?complete))
                      (polling_page Rev2))))
          = filter (poll_for (template (taskId ?p))) (sent (polling_page Rev2))"
    by (simp del: step.simps run.simps)
  with sent
  have 5: "filter (poll_for ''t1'')
             (sent (run Rev2 caseless ?again
                      (step Rev2 caseless (PollSettled 0 (PollResolved ?complete))
                         (polling_page Rev2))))
             = [GET_task 0 ''t1'']"
    by (simp add: template_def del: step.simps run.simps)
  from waiting 1 running 2 3 in_flight terminal 4 5 show ?thesis
    by (simp del: step.simps run.simps)
qed

subsection \<open>One analysis at a time\<close>

lemma back_to_idle:
  assumes "status w \<noteq> idle" and "status (step rv uni ev w) = idle"
  shows "(\<exists>h task. ev = PollSettled h (PollResolved task) \<and> terminal_status task) \<or>
         (\<exists>outcome. ev = AnalyzeSettled outcome \<and> analyze_request_failed rv outcome) \<or>
         (\<exists>outcome. ev = LoadSettled outcome)"
  using assms
  by (cases ev)
     (auto simp: handler_defs terminal_status_def
        split: if_splits option.splits poll_outcome.splits analyze_outcome.splits)

lemma request_only_by_click:
  "ev \<noteq> ClickAnalyze \<Longrightarrow>
     filter analyze_request (sent (step rv uni ev w)) = filter analyze_request (sent w)"
  by (cases ev)
     (auto simp: handler_defs
        split: if_splits option.splits poll_outcome.splits analyze_outcome.splits
          load_outcome.splits)

lemma settles_to_idle:
  "(0 < pendingLoads w \<longrightarrow> status (step rv uni (LoadSettled loaded) w) = idle) \<and>
   (0 < pendingAnalyze w \<and> analyze_request_failed rv answered \<longrightarrow>
      status (step rv uni (AnalyzeSettled answered) w) = idle) \<and>
   (h \<in> set (pendingPolls w) \<and> terminal_status task \<longrightarrow>
      status (step rv uni (PollSettled h (PollResolved task)) w) = idle)"
  by (auto simp: handler_defs terminal_status_def
        split: load_outcome.splits analyze_outcome.splits option.splits)

text \<open>
  C10 as stated fails on the code. \<^verbatim>\<open>Refresh\<close> is disabled only while loading, and
  \<^verbatim>\<open>loadMarketData\<close> ends by setting the status to idle whatever it was before. So a load
  that settles while a task is being polled returns the page to idle and makes \<^verbatim>\<open>Analyze\<close>
  available: a second task is submitted and polled beside the first.
\<close>

theorem load_during_analysis_allows_second_analysis:
  "status
     (run Rev2 caseless
        [LoadSettled LoadRejected,
         ClickAnalyze,
         AnalyzeSettled (AnalyzeResponse True (Some \<lparr>task_id = Text ''t1''\<rparr>)),
         ClickRefresh,
         LoadSettled (LoadResolved
           (Some \<lparr>hj_candles = Some [], hj_indicators = None, hj_rsi = None, hj_macd = None\<rparr>)
           (Some \<lparr>nj_news = Some []\<rparr>))]
        (mounted Rev2)) = idle \<and>
   intervals
     (run Rev2 caseless
        [LoadSettled LoadRejected,
         ClickAnalyze,
         AnalyzeSettled (AnalyzeResponse True (Some \<lparr>task_id = Text ''t1''\<rparr>)),
         ClickRefresh,
         LoadSettled (LoadResolved
           (Some \<lparr>hj_candles = Some [], hj_indicators = None, hj_rsi = None, hj_macd = None\<rparr>)
           (Some \<lparr>nj_news = Some []\<rparr>))]
        (mounted Rev2))
     = [\<lparr>handle = 0, taskId = Text ''t1'', delay = 1500\<rparr>] \<and>
   intervals
     (run Rev2 caseless
        [LoadSettled LoadRejected,
         ClickAnalyze,
         AnalyzeSettled (AnalyzeResponse True (Some \<lparr>task_id = Text ''t1''\<rparr>)),
         ClickRefresh,
         LoadSettled (LoadResolved
           (Some \<lparr>hj_candles = Some [], hj_indicators = None, hj_rsi = None, hj_macd = None\<rparr>)
           (Some \<lparr>nj_news = Some []\<rparr>)),
         ClickAnalyze,
         AnalyzeSettled (AnalyzeResponse True (Some \<lparr>task_id = Text ''t2''\<rparr>))]
        (mounted Rev2))
     = [\<lparr>handle = 0, taskId = Text ''t1'', delay = 1500\<rparr>,
        \<lparr>handle = 1, taskId = Text ''t2'', delay = 1500\<rparr>]"
  by (simp add: handler_defs mounted_def first_render_def)

text \<open>
  C10, amended. The Analyze action is available only while the dashboard status is idle;
  initiating an analysis moves the status to analyzing in the step that sends the
  request, and no other event sends one; and the status returns to idle only on a
  terminal poll response, on a failed analyze request, or when a market-data load
  settles, each of which does return it to idle.
\<close>

theorem analyze_only_from_idle:
  "(disabled (analyzeButton w) \<longleftrightarrow> status w \<noteq> idle) \<and>
   (status w \<noteq> idle \<longrightarrow> step rv uni ClickAnalyze w = w) \<and>
   (status w = idle \<longrightarrow>
      status (step rv uni ClickAnalyze w) = analyzing \<and>
      sent (step rv uni ClickAnalyze w) = sent w @ [POST_analyze (ticker w)]) \<and>
   (\<forall>ev. ev \<noteq> ClickAnalyze \<longrightarrow>
      filter analyze_request (sent (step rv uni ev w)) = filter analyze_request (sent w)) \<and>
   (\<forall>ev. status w \<noteq> idle \<and> status (step rv uni ev w) = idle \<longrightarrow>
      (\<exists>h task. ev = PollSettled h (PollResolved task) \<and> terminal_status task) \<or>
      (\<exists>outcome. ev = AnalyzeSettled outcome \<and> analyze_request_failed rv outcome) \<or>
      (\<exists>outcome. ev = LoadSettled outcome)) \<and>
   (\<forall>loaded. 0 < pendingLoads w \<longrightarrow> status (step rv uni (LoadSettled loaded) w) = idle) \<and>
   (\<forall>answered. 0 < pendingAnalyze w \<and> analyze_request_failed rv answered \<longrightarrow>
      status (step rv uni (AnalyzeSettled answered) w) = idle) \<and>
   (\<forall>h task. h \<in> set (pendingPolls w) \<and> terminal_status task \<longrightarrow>
      status (step rv uni (PollSettled h (PollResolved task)) w) = idle)"
proof -
  have "disabled (analyzeButton w) \<longleftrightarrow> status w \<noteq> idle"
    by (simp add: analyzeButton_def)
  moreover have "status w \<noteq> idle \<longrightarrow> step rv uni ClickAnalyze w = w"
    by (simp add: analyzeButton_def)
  moreover have "status w = idle \<longrightarrow>
      status (step rv uni ClickAnalyze w) = analyzing \<and>
      sent (step rv uni ClickAnalyze w) = sent w @ [POST_analyze (ticker w)]"
    by (simp add: analyzeButton_def handleAnalyze_def)
  ultimately show ?thesis
    using request_only_by_click [of _ rv uni w] back_to_idle [of w rv uni]
      settles_to_idle [of w rv uni]
    by blast
qed

theorem analyze_only_from_idle_witness:
  "status (polling_page Rev2) = analyzing \<and>
   step Rev2 caseless ClickAnalyze (polling_page Rev2) = polling_page Rev2 \<and>
   0 < pendingLoads (mounted Rev2) \<and>
   status (step Rev2 caseless (LoadSettled LoadRejected) (mounted Rev2)) = idle \<and>
   status (step Rev2 caseless ClickAnalyze
             (step Rev2 caseless (LoadSettled LoadRejected) (mounted Rev2))) = analyzing \<and>
   0 \<in> set (pendingPolls (polling_page Rev2)) \<and>
   status (step Rev2 caseless
             (PollSettled 0 (PollResolved
                \<lparr>task_status = Some ''complete'', task_result = None, task_error = None\<rparr>))
             (polling_page Rev2)) = idle \<and>
   status (step Rev2 caseless (TimerFire 0) (polling_page Rev2)) \<noteq> idle \<and>
   0 < pendingAnalyze (run Rev2 caseless [LoadSettled LoadRejected, ClickAnalyze] (mounted Rev2)) \<and>
   status (step Rev2 caseless (AnalyzeSettled (AnalyzeResponse False None))
             (run Rev2 caseless [LoadSettled LoadRejected, ClickAnalyze] (mounted Rev2))) = idle \<and>
   filter analyze_request (sent (step Rev2 caseless ClickRefresh (polling_page Rev2)))
     = [POST_analyze AAPL]"
proof -
  let ?complete = "\<lparr>task_status = Some ''complete'', task_result = None, task_error = None\<rparr>"
  let ?loaded = "step Rev2 caseless (LoadSettled LoadRejected) (mounted Rev2)"
  let ?submitted = "run Rev2 caseless [LoadSettled LoadRejected, ClickAnalyze] (mounted Rev2)"
  have busy: "status (polling_page Rev2) = analyzing"
    and in_flight: "0 \<in> set (pendingPolls (polling_page Rev2))"
    and posts: "filter analyze_request (sent (polling_page Rev2)) = [POST_analyze AAPL]"
    by (simp_all add: polling_page_eq)
  have loading: "0 < pendingLoads (mounted Rev2)"
    by (simp add: mounted_def loadMarketData_def first_render_def)
  have waiting: "0 < pendingAnalyze ?submitted"
    by (simp add: handler_defs mounted_def first_render_def)
  have terminal: "terminal_status ?complete"
    by (simp add: terminal_status_def)
  have refused: "analyze_request_failed Rev2 (AnalyzeResponse False None)"
    by simp
  from analyze_only_from_idle [of "polling_page Rev2" Rev2 caseless] busy
  have 1: "step Rev2 caseless ClickAnalyze (polling_page Rev2) = polling_page Rev2"
    by (simp del: step.simps)
  from analyze_only_from_idle [of "mounted Rev2" Rev2 caseless] loading
  have free: "status ?loaded = idle"
    by blast
  from analyze_only_from_idle [of ?loaded Rev2 caseless] free
  have 2: "status (step Rev2 caseless ClickAnalyze ?loaded) = analyzing"
    by (simp del: step.simps)
  from analyze_only_from_idle [of "polling_page Rev2" Rev2 caseless] in_flight terminal
  have 3: "status (step Rev2 caseless (PollSettled 0 (PollResolved ?complete))
                     (polling_page Rev2)) = idle"
    by blast
  from analyze_only_from_idle [of "polling_page Rev2" Rev2 caseless]
  have "status (polling_page Rev2) \<noteq> idle \<and>
        status (step Rev2 caseless (TimerFire 0) (polling_page Rev2)) = idle \<longrightarrow>
          (\<exists>h task. TimerFire 0 = PollSettled h (PollResolved task) \<and> terminal_status task) \<or>
          (\<exists>outcome. TimerFire 0 = AnalyzeSettled outcome \<and>
                      analyze_request_failed Rev2 outcome) \<or>
          (\<exists>outcome. TimerFire 0 = LoadSettled outcome)"
    by blast
  with busy
  have 4: "status (step Rev2 caseless (TimerFire 0) (polling_page Rev2)) \<noteq> idle"
    by (auto simp del: step.simps)
  from analyze_only_from_idle [of ?submitted Rev2 caseless] waiting refused
  have 5: "status (step Rev2 caseless (AnalyzeSettled (AnalyzeResponse False None)) ?submitted)
             = idle"
    by blast
  from analyze_only_from_idle [of "polling_page Rev2" Rev2 caseless]
  have "ClickRefresh \<noteq> ClickAnalyze \<longrightarrow>
          filter analyze_request (sent (step Rev2 caseless ClickRefresh (polling_page Rev2)))
            = filter analyze_request (sent (polling_page Rev2))"
    by blast
  with posts
  have 6: "filter analyze_request (sent (step Rev2 caseless ClickRefresh (polling_page Rev2)))
             = [POST_analyze AAPL]"
    by (simp del: step.simps)
  from busy 1 loading free 2 in_flight 3 4 waiting 5 6 show ?thesis
    by (simp del: step.simps run.simps)
qed

end
